theory Spec2Isabelle
  imports Complex_Main "HOL-Library.Char_ord" "HOL-Library.List_Lexorder" "HOL-Library.Log_Nat"
begin

section \<open>JavaScript values used by the models and controllers\<close>

text \<open>
  Numbers are JavaScript doubles in the source. A finite double is modelled by the
  rational number it denotes, and the result of an arithmetic operation is the exact
  result rounded to the nearest double, ties to even, with 53 bits of precision and
  gradual underflow. A rational of magnitude \<open>2^1024\<close> or more stands for an infinity,
  \<open>NaN\<close> is \<open>None\<close> where it can arise, and \<open>undefined\<close> or a missing request field is
  \<open>None\<close>. In the installment documents, which hold money amounts entered as such, the
  sums and differences are written exactly; they agree with the code wherever the
  double arithmetic is exact.
\<close>

subsection \<open>Doubles\<close>

text \<open>\<open>ilog2 x\<close> is the integer part of the binary logarithm of a positive \<open>x\<close>.\<close>

definition ilog2 :: "rat \<Rightarrow> int" where
  "ilog2 x =
     (let e0 = bitlen (fst (quotient_of x)) - bitlen (snd (quotient_of x))
      in if power_int 2 e0 \<le> x then e0 else e0 - 1)"

definition round_half_even :: "rat \<Rightarrow> int" where
  "round_half_even r =
     (let f = \<lfloor>r\<rfloor>; d = r - of_int f
      in if d < 1 / 2 then f else if 1 / 2 < d then f + 1 else if even f then f else f + 1)"

text \<open>The nearest double: a multiple of the spacing \<open>2^(e - 52)\<close> of the doubles around \<open>x\<close>.\<close>

definition round_double :: "rat \<Rightarrow> rat" where
  "round_double x =
     (if x = 0 then 0
      else let q = power_int 2 (max (ilog2 \<bar>x\<bar>) (- 1022) - 52)
           in of_int (round_half_even (x / q)) * q)"

definition js_add :: "rat \<Rightarrow> rat \<Rightarrow> rat" where
  "js_add a b = round_double (a + b)"

definition js_sub :: "rat \<Rightarrow> rat \<Rightarrow> rat" where
  "js_sub a b = round_double (a - b)"

definition js_mul :: "rat \<Rightarrow> rat \<Rightarrow> rat" where
  "js_mul a b = round_double (a * b)"

definition js_div :: "rat \<Rightarrow> rat \<Rightarrow> rat" where
  "js_div a b = round_double (a / b)"

subsection \<open>String helpers: \<open>replace\<close>, \<open>parseInt\<close>, \<open>String\<close>, \<open>padStart\<close>, \<open>slice\<close>\<close>

text \<open>\<open>s.replace(pat, '')\<close> with a string pattern removes the first occurrence of \<open>pat\<close>.\<close>

fun replace_first :: "string \<Rightarrow> string \<Rightarrow> string" where
  "replace_first pat [] = []"
| "replace_first pat (c # cs) =
     (if take (length pat) (c # cs) = pat then drop (length pat) (c # cs)
      else c # replace_first pat cs)"

definition is_digit :: "char \<Rightarrow> bool" where
  "is_digit c = (CHR ''0'' \<le> c \<and> c \<le> CHR ''9'')"

definition is_space :: "char \<Rightarrow> bool" where
  "is_space c = (c = CHR '' '' \<or> (9 \<le> (of_char c :: nat) \<and> (of_char c :: nat) \<le> 13))"

definition digit_val :: "char \<Rightarrow> int" where
  "digit_val c = of_char c - 48"

definition digits_value :: "string \<Rightarrow> int" where
  "digits_value ds = foldl (\<lambda>a c. 10 * a + digit_val c) 0 ds"

text \<open>
  \<open>parseInt(s, 10)\<close>: leading white space is skipped, one sign is accepted, then the
  longest run of decimal digits is read and its value is rounded to a double; with no
  digit the result is \<open>NaN\<close> (\<open>None\<close>).
\<close>

definition parseInt10 :: "string \<Rightarrow> rat option" where
  "parseInt10 s =
     (let t = dropWhile is_space s;
          neg = (t \<noteq> [] \<and> hd t = CHR ''-'');
          u = (if t \<noteq> [] \<and> (hd t = CHR ''-'' \<or> hd t = CHR ''+'') then tl t else t);
          ds = takeWhile is_digit u
      in if ds = [] then None
         else Some (if neg then - round_double (of_int (digits_value ds))
                    else round_double (of_int (digits_value ds))))"

definition digit_char :: "nat \<Rightarrow> char" where
  "digit_char d = char_of (48 + d)"

fun show_nat :: "nat \<Rightarrow> string" where
  "show_nat n = (if n < 10 then [digit_char n] else show_nat (n div 10) @ [digit_char (n mod 10)])"

declare show_nat.simps [simp del]

text \<open>The same digits for an integer that is not negative, of any size.\<close>

function show_digits :: "int \<Rightarrow> string" where
  "show_digits n =
     (if n < 10 then [digit_char (nat n)]
      else show_digits (n div 10) @ [digit_char (nat (n mod 10))])"
  by pat_completeness auto
termination
  by (relation "measure nat") auto

declare show_digits.simps [simp del]

text \<open>
  \<open>String(x)\<close> for a number with an integer value. Below \<open>2^53\<close> the digits are those of
  the integer. From there on they are the digits of the decimal with the fewest
  significant digits that still rounds to \<open>x\<close> (the nearest one to \<open>x\<close> among those),
  followed by zeros; from \<open>10^21\<close> on the exponent notation is used.
\<close>

definition round_trips :: "int \<Rightarrow> nat \<Rightarrow> int list" where
  "round_trips n k =
     (let p = 10 ^ (length (show_digits n) - k); lo = (n div p) * p
      in filter (\<lambda>v. round_double (of_int v) = of_int n) [lo, lo + p])"

definition shortest_decimal :: "int \<Rightarrow> int" where
  "shortest_decimal n =
     (if n < 2 ^ 53 then n
      else (case find (\<lambda>k. round_trips n k \<noteq> []) [1..<18] of
              None \<Rightarrow> n
            | Some k \<Rightarrow>
                (case round_trips n k of
                   [lo, hi] \<Rightarrow>
                     if n - lo < hi - n then lo
                     else if hi - n < n - lo then hi
                     else if even (lo div 10 ^ (length (show_digits n) - k)) then lo else hi
                 | v # _ \<Rightarrow> v
                 | [] \<Rightarrow> n)))"

definition exponent_form :: "int \<Rightarrow> string" where
  "exponent_form v =
     (let ds = rev (dropWhile (\<lambda>c. c = CHR ''0'') (rev (show_digits v)))
      in hd ds # (if tl ds = [] then [] else CHR ''.'' # tl ds)
           @ ''e+'' @ show_nat (length (show_digits v) - 1))"

definition js_number_to_string :: "rat \<Rightarrow> string" where
  "js_number_to_string x =
     (if x < 0 then ''-'' else [])
       @ (if 2 ^ 1024 \<le> \<bar>x\<bar> then ''Infinity''
          else let v = shortest_decimal \<lfloor>\<bar>x\<bar>\<rfloor>
               in if v < 10 ^ 21 then show_digits v else exponent_form v)"

definition js_String :: "rat option \<Rightarrow> string" where
  "js_String v = (case v of None \<Rightarrow> ''NaN'' | Some x \<Rightarrow> js_number_to_string x)"

definition padStart :: "nat \<Rightarrow> char \<Rightarrow> string \<Rightarrow> string" where
  "padStart n c s = replicate (n - length s) c @ s"

text \<open>\<open>x + 1\<close> on a number that may be \<open>NaN\<close>.\<close>

definition js_succ :: "rat option \<Rightarrow> rat option" where
  "js_succ v = map_option (\<lambda>x. js_add x 1) v"

section \<open>Sequential identifiers (the \<open>pre('save')\<close> hooks of the models)\<close>

text \<open>
  A collection is seen here through the list of the ids of its documents, in creation
  order. \<open>findOne({}, {}, {sort: {id: -1}})\<close> returns the document whose id is last in
  the byte-wise lexicographic order of strings, or \<open>null\<close> for an empty collection.
\<close>

fun findOne_sort_desc :: "string list \<Rightarrow> string option" where
  "findOne_sort_desc [] = None"
| "findOne_sort_desc (x # xs) =
     (case findOne_sort_desc xs of None \<Rightarrow> Some x | Some y \<Rightarrow> Some (max x y))"

text \<open>
  The body shared by the hooks of Member, Ledger, Group, Scheme, Installment (they differ
  in the prefix only):
  \<^verbatim>\<open>
    let newId = 'MEM001';
    if (lastMember && lastMember.member_id) {
      const lastIdNumber = parseInt(lastMember.member_id.replace('MEM', ''), 10);
      newId = `MEM${String(lastIdNumber + 1).padStart(3, '0')}`;
    }
  \<close>
\<close>

definition next_sequential_id :: "string \<Rightarrow> string list \<Rightarrow> string" where
  "next_sequential_id pfx ids =
     (case findOne_sort_desc ids of
        None \<Rightarrow> pfx @ ''001''
      | Some lastId \<Rightarrow>
          if lastId = [] then pfx @ ''001''
          else pfx @ padStart 3 (CHR ''0'')
                 (js_String (js_succ (parseInt10 (replace_first pfx lastId)))))"

text \<open>
  \<open>if (!this.isNew || this.member_id) return next();\<close> keeps an id that is set; the
  id of a document that has none is the empty string here (falsy, as \<open>undefined\<close> is).
\<close>

definition pre_save_id :: "string \<Rightarrow> string list \<Rightarrow> bool \<Rightarrow> string \<Rightarrow> string" where
  "pre_save_id pfx ids isNew cur =
     (if \<not> isNew \<or> cur \<noteq> [] then cur else next_sequential_id pfx ids)"

definition MemberSchema_pre_save :: "string list \<Rightarrow> bool \<Rightarrow> string \<Rightarrow> string" where
  "MemberSchema_pre_save = pre_save_id ''MEM''"

definition LedgerSchema_pre_save :: "string list \<Rightarrow> bool \<Rightarrow> string \<Rightarrow> string" where
  "LedgerSchema_pre_save = pre_save_id ''LGR''"

text \<open>
  The id fields are declared \<open>unique: true\<close>: inserting a document whose id is already in
  the collection fails with a duplicate-key error, and nothing is stored.
\<close>

datatype store_error = DuplicateKey

definition create_record :: "string \<Rightarrow> string list \<Rightarrow> store_error + string list" where
  "create_record pfx ids =
     (let newId = pre_save_id pfx ids True []
      in if newId \<in> set ids then Inl DuplicateKey else Inr (ids @ [newId]))"

text \<open>\<open>n\<close> creations in a row, none with an explicit id, stopping at the first failure.\<close>

fun create_many :: "string \<Rightarrow> nat \<Rightarrow> string list \<Rightarrow> store_error + string list" where
  "create_many pfx 0 ids = Inr ids"
| "create_many pfx (Suc n) ids =
     (case create_many pfx n ids of Inl e \<Rightarrow> Inl e | Inr ids' \<Rightarrow> create_record pfx ids')"

text \<open>The id the specification expects for the \<open>n\<close>-th record: prefix and zero-padded \<open>n\<close>.\<close>

definition padded_id :: "string \<Rightarrow> nat \<Rightarrow> string" where
  "padded_id pfx n = pfx @ padStart 3 (CHR ''0'') (show_nat n)"

definition seq_ids :: "string \<Rightarrow> nat \<Rightarrow> string list" where
  "seq_ids pfx n = map (padded_id pfx) [1..<Suc n]"

subsection \<open>Transaction ids carry the year\<close>

text \<open>\<open>new Date().getFullYear().toString().slice(-2)\<close>; the year is a natural number.\<close>

definition year_suffix :: "nat \<Rightarrow> string" where
  "year_suffix year = (let y = show_nat year in drop (length y - 2) y)"

text \<open>
  \<^verbatim>\<open>
    const yearSuffix = new Date().getFullYear().toString().slice(-2);
    let newId = `TXN${yearSuffix}001`;
    if (lastTransaction && lastTransaction.transaction_id) {
      const lastIdPrefix = lastTransaction.transaction_id.slice(0, 5);
      const lastIdNumber = parseInt(lastTransaction.transaction_id.slice(5), 10);
      if (lastIdPrefix !== `TXN${yearSuffix}`) { newId = `TXN${yearSuffix}001`; }
      else { newId = `TXN${yearSuffix}${String(lastIdNumber + 1).padStart(3, '0')}`; }
    }
  \<close>
\<close>

definition next_transaction_id :: "nat \<Rightarrow> string list \<Rightarrow> string" where
  "next_transaction_id year ids =
     (let yearSuffix = year_suffix year
      in case findOne_sort_desc ids of
           None \<Rightarrow> ''TXN'' @ yearSuffix @ ''001''
         | Some lastId \<Rightarrow>
             if lastId = [] then ''TXN'' @ yearSuffix @ ''001''
             else let lastIdPrefix = take 5 lastId;
                      lastIdNumber = parseInt10 (drop 5 lastId)
                  in if lastIdPrefix \<noteq> ''TXN'' @ yearSuffix then ''TXN'' @ yearSuffix @ ''001''
                     else ''TXN'' @ yearSuffix
                            @ padStart 3 (CHR ''0'') (js_String (js_succ lastIdNumber)))"

definition TransactionSchema_pre_save_id :: "nat \<Rightarrow> string list \<Rightarrow> bool \<Rightarrow> string \<Rightarrow> string" where
  "TransactionSchema_pre_save_id year ids isNew cur =
     (if \<not> isNew \<or> cur \<noteq> [] then cur else next_transaction_id year ids)"

text \<open>
  The id the specification describes: the year embedded in the last id, its two
  characters after the three-letter prefix, is compared with the current one; the
  counter restarts on a difference and is otherwise the successor of the numeric suffix.
\<close>

definition spec_transaction_id :: "nat \<Rightarrow> string list \<Rightarrow> string" where
  "spec_transaction_id year ids =
     (case findOne_sort_desc ids of
        None \<Rightarrow> ''TXN'' @ year_suffix year @ ''001''
      | Some lastId \<Rightarrow>
          if take 2 (drop 3 lastId) \<noteq> year_suffix year then ''TXN'' @ year_suffix year @ ''001''
          else ''TXN'' @ year_suffix year
                 @ padStart 3 (CHR ''0'') (js_String (js_succ (parseInt10 (drop 5 lastId)))))"

section \<open>Documents, collections and responses\<close>

text \<open>
  An \<open>ObjectId\<close> is a natural number. A collection is the list of its documents in
  creation order, so that sorting by \<open>createdAt\<close> is the order of the list. A handler
  returns its response and the database after it; an error response is
  \<open>Inl (status, message)\<close>, where the messages the handlers write themselves are
  theirs, the messages of a property read on \<open>undefined\<close> or \<open>null\<close> are those of the
  runtime, and the messages of the library's errors (validation, cast, duplicate key)
  are shortened. A request names a document by its
  \<open>_id\<close>. A time is the number of milliseconds since the epoch.
\<close>

type_synonym oid = nat
type_synonym http_error = "nat \<times> string"

text \<open>
  A value of a JSON request body: a number, a string, a boolean, a string that is an
  ObjectId, or a nested object with its keys in order.
\<close>

datatype jsvalue = Num rat | Str string | Bool bool | Oid oid | Obj "(string \<times> jsvalue) list"

type_synonym jsobject = "(string \<times> jsvalue) list"

subsection \<open>Coercions of request values\<close>

text \<open>
  \<open>Number(s)\<close> for a string of decimal digits, with a minus sign or without. The other
  strings (empty, fractions, exponents, other radixes, text) are outside this model
  (\<open>None\<close>).
\<close>

definition decimal_string :: "string \<Rightarrow> bool" where
  "decimal_string s = (s \<noteq> [] \<and> list_all is_digit s)"

definition string_to_number :: "string \<Rightarrow> rat option" where
  "string_to_number s =
     (if decimal_string s then Some (round_double (of_int (digits_value s)))
      else if s \<noteq> [] \<and> hd s = CHR ''-'' \<and> decimal_string (tl s)
        then Some (- round_double (of_int (digits_value (tl s))))
      else None)"

definition to_number :: "jsvalue \<Rightarrow> rat option" where
  "to_number v = (case v of Num x \<Rightarrow> Some x | Str s \<Rightarrow> string_to_number s | _ \<Rightarrow> None)"

text \<open>
  \<open>v || 0\<close> on a request field: \<open>undefined\<close>, the number 0 and the empty string are falsy,
  any other number or string is kept as it is.
\<close>

definition or_zero :: "jsvalue option \<Rightarrow> jsvalue option" where
  "or_zero v =
     (case v of
        None \<Rightarrow> Some (Num 0)
      | Some (Num x) \<Rightarrow> Some (Num x)
      | Some (Str s) \<Rightarrow> if s = [] then Some (Num 0) else Some (Str s)
      | Some _ \<Rightarrow> None)"

text \<open>
  \<open>a + v\<close> with a number on the left: the sum of two numbers, but the concatenation of
  \<open>String(a)\<close> and \<open>v\<close> when \<open>v\<close> is a string. \<open>String(a)\<close> is modelled for an integer \<open>a\<close>.
\<close>

definition js_plus :: "rat \<Rightarrow> jsvalue \<Rightarrow> jsvalue option" where
  "js_plus a v =
     (case v of
        Num x \<Rightarrow> Some (Num (js_add a x))
      | Str s \<Rightarrow> if of_int \<lfloor>a\<rfloor> = a then Some (Str (js_number_to_string a @ s)) else None
      | _ \<Rightarrow> None)"

text \<open>\<open>l - r\<close>: both sides are converted to numbers.\<close>

definition js_minus :: "jsvalue \<Rightarrow> jsvalue \<Rightarrow> rat option" where
  "js_minus l r =
     (case (to_number l, to_number r) of (Some a, Some b) \<Rightarrow> Some (js_sub a b) | _ \<Rightarrow> None)"

text \<open>
  The cast of a request field to a \<open>Number\<close> path with \<open>default: 0\<close>: the default for a
  missing field, the number itself, \<open>Number(s)\<close> for a string.
\<close>

definition cast_number_default0 :: "jsvalue option \<Rightarrow> rat option" where
  "cast_number_default0 v =
     (case v of None \<Rightarrow> Some 0 | Some (Num x) \<Rightarrow> Some x | Some (Str s) \<Rightarrow> string_to_number s
      | Some _ \<Rightarrow> None)"

section \<open>Ledger (\<open>models/ledger.js\<close> and the ledger controller)\<close>

record ledger =
  l_oid :: oid
  ledger_id :: string
  l_branch_id :: oid
  l_member_id :: oid
  l_group_id :: "oid option"
  l_transaction_id :: oid
  l_date :: rat
  debit :: rat
  credit :: rat
  balance :: rat
  l_description :: "string option"
  l_reference :: "string option"

record ledger_db =
  branch_oids :: "oid list"
  member_oids :: "oid list"
  transaction_oids :: "oid list"
  group_oids :: "oid list"
  ledgers :: "ledger list"

text \<open>The request body of \<open>createLedgerEntry\<close>; \<open>debit\<close> and \<open>credit\<close> are taken as sent.\<close>

record ledger_body =
  b_branch_id :: "oid option"
  b_member_id :: "oid option"
  b_group_id :: "oid option"
  b_transaction_id :: "oid option"
  b_debit :: "jsvalue option"
  b_credit :: "jsvalue option"
  b_description :: "string option"
  b_reference :: "string option"

text \<open>
  \<open>Ledger.create\<close>: the \<open>pre('save')\<close> hook gives the id, then the document is inserted
  under the unique index on \<open>ledger_id\<close>.
\<close>

definition Ledger_create :: "ledger \<Rightarrow> ledger list \<Rightarrow> string + (ledger \<times> ledger list)" where
  "Ledger_create doc coll =
     (let newId = LedgerSchema_pre_save (map ledger_id coll) True (ledger_id doc);
          d = doc\<lparr>ledger_id := newId\<rparr>
      in if newId \<in> set (map ledger_id coll) then Inl ''E11000 duplicate key error''
         else Inr (d, coll @ [d]))"

text \<open>\<open>Ledger.findOne({ member_id }).sort({ createdAt: -1 })\<close>\<close>

definition findOne_latest :: "oid \<Rightarrow> ledger list \<Rightarrow> ledger option" where
  "findOne_latest m coll =
     (case filter (\<lambda>e. l_member_id e = m) coll of [] \<Rightarrow> None | e # es \<Rightarrow> Some (last (e # es)))"

text \<open>
  \<^verbatim>\<open>
    const lastBalance = lastEntry ? lastEntry.balance : 0;
    const newBalance = lastBalance + (credit || 0) - (debit || 0);
  \<close>
  \<open>None\<close> when a coercion is outside the model.
\<close>

definition newBalance :: "rat \<Rightarrow> jsvalue option \<Rightarrow> jsvalue option \<Rightarrow> rat option" where
  "newBalance lastBalance cr db =
     (case (or_zero cr, or_zero db) of
        (Some c, Some d) \<Rightarrow>
          (case js_plus lastBalance c of None \<Rightarrow> None | Some l \<Rightarrow> js_minus l d)
      | _ \<Rightarrow> None)"

text \<open>
  The handler. The result is \<open>None\<close> when the body holds a \<open>debit\<close> or \<open>credit\<close> whose
  coercion is outside the model.
\<close>

definition createLedgerEntry ::
    "rat \<Rightarrow> oid \<Rightarrow> ledger_body \<Rightarrow> ledger_db \<Rightarrow> ((http_error + ledger) \<times> ledger_db) option" where
  "createLedgerEntry now new_oid body db =
     (case (b_branch_id body, b_member_id body, b_transaction_id body) of
        (Some b, Some m, Some t) \<Rightarrow>
          if b \<notin> set (branch_oids db) then Some (Inl (400, ''Branch not found''), db)
          else if m \<notin> set (member_oids db) then Some (Inl (400, ''Member not found''), db)
          else if t \<notin> set (transaction_oids db)
            then Some (Inl (400, ''Transaction not found''), db)
          else if (case b_group_id body of None \<Rightarrow> False | Some g \<Rightarrow> g \<notin> set (group_oids db))
            then Some (Inl (400, ''Group not found''), db)
          else
            let lastEntry = findOne_latest m (ledgers db);
                lastBalance = (case lastEntry of None \<Rightarrow> 0 | Some e \<Rightarrow> balance e)
            in (case (newBalance lastBalance (b_credit body) (b_debit body),
                      cast_number_default0 (b_debit body),
                      cast_number_default0 (b_credit body)) of
                  (Some nb, Some d, Some c) \<Rightarrow>
                    (case Ledger_create
                            \<lparr>l_oid = new_oid, ledger_id = [], l_branch_id = b, l_member_id = m,
                             l_group_id = b_group_id body, l_transaction_id = t, l_date = now,
                             debit = d, credit = c, balance = nb,
                             l_description = b_description body,
                             l_reference = b_reference body\<rparr>
                            (ledgers db) of
                       Inl msg \<Rightarrow> Some (Inl (400, msg), db)
                     | Inr (entry, coll) \<Rightarrow> Some (Inr entry, db\<lparr>ledgers := coll\<rparr>))
                | _ \<Rightarrow> None)
      | _ \<Rightarrow> Some (Inl (400, ''Branch ID, Member ID and Transaction ID are required''), db))"

text \<open>
  A sequence of requests, each with its time and the \<open>_id\<close> of the new document; the
  responses are dropped.
\<close>

fun run_creates :: "(rat \<times> oid \<times> ledger_body) list \<Rightarrow> ledger_db \<Rightarrow> ledger_db option" where
  "run_creates [] db = Some db"
| "run_creates ((now, new_oid, body) # rs) db =
     (case createLedgerEntry now new_oid body db of
        None \<Rightarrow> None
      | Some (r, db') \<Rightarrow> run_creates rs db')"

text \<open>
  The running-balance chain of the specification over the entries of one member in
  creation order: each balance is the one before plus credit minus debit, in the
  arithmetic of the code.
\<close>

fun chained :: "rat \<Rightarrow> ledger list \<Rightarrow> bool" where
  "chained prev [] = True"
| "chained prev (e # es) =
     (balance e = js_sub (js_add prev (credit e)) (debit e) \<and> chained (balance e) es)"

text \<open>A body whose \<open>debit\<close> and \<open>credit\<close> are numbers or missing.\<close>

definition numeric_body :: "ledger_body \<Rightarrow> bool" where
  "numeric_body body =
     ((case b_debit body of None \<Rightarrow> True | Some (Num x) \<Rightarrow> True | Some _ \<Rightarrow> False)
      \<and> (case b_credit body of None \<Rightarrow> True | Some (Num x) \<Rightarrow> True | Some _ \<Rightarrow> False))"

subsection \<open>\<open>getMemberLedger\<close>\<close>

record statement =
  opening_balance :: rat
  closing_balance :: rat
  transactions :: "ledger list"
  count :: nat

text \<open>
  \<open>new Date(s)\<close> for a query string of one of the date-only forms \<open>YYYY\<close>, \<open>YYYY-MM\<close> and
  \<open>YYYY-MM-DD\<close> that names a day of the calendar (the first of the year or month for the
  short forms): midnight UTC of that day. Every other string is outside this model
  (\<open>None\<close>).
\<close>

definition days_from_civil :: "int \<Rightarrow> int \<Rightarrow> int \<Rightarrow> int" where
  "days_from_civil y m d =
     (let y' = (if m \<le> 2 then y - 1 else y);
          era = y' div 400;
          yoe = y' - era * 400;
          doy = (153 * (if 2 < m then m - 3 else m + 9) + 2) div 5 + d - 1;
          doe = yoe * 365 + yoe div 4 - yoe div 100 + doy
      in era * 146097 + doe - 719468)"

definition days_in_month :: "int \<Rightarrow> int \<Rightarrow> int" where
  "days_in_month y m =
     (if m = 2 then (if y mod 4 = 0 \<and> (y mod 100 \<noteq> 0 \<or> y mod 400 = 0) then 29 else 28)
      else if m \<in> {4, 6, 9, 11} then 30 else 31)"

definition date_utc :: "int \<Rightarrow> int \<Rightarrow> int \<Rightarrow> rat option" where
  "date_utc y m d =
     (if 1 \<le> m \<and> m \<le> 12 \<and> 1 \<le> d \<and> d \<le> days_in_month y m
      then Some (of_int (days_from_civil y m d * 86400000))
      else None)"

definition parse_date :: "string \<Rightarrow> rat option" where
  "parse_date s =
     (if length s = 4 \<and> list_all is_digit s
        then date_utc (digits_value s) 1 1
      else if length s = 7 \<and> s ! 4 = CHR ''-''
         \<and> list_all is_digit (take 4 s) \<and> list_all is_digit (drop 5 s)
        then date_utc (digits_value (take 4 s)) (digits_value (drop 5 s)) 1
      else if length s = 10 \<and> s ! 4 = CHR ''-'' \<and> s ! 7 = CHR ''-''
         \<and> list_all is_digit (take 4 s) \<and> list_all is_digit (take 2 (drop 5 s))
         \<and> list_all is_digit (drop 8 s)
        then date_utc (digits_value (take 4 s)) (digits_value (take 2 (drop 5 s)))
               (digits_value (drop 8 s))
      else None)"

text \<open>
  \<^verbatim>\<open>
    if (startDate || endDate) {
      filter.date = {};
      if (startDate) filter.date.$gte = new Date(startDate);
      if (endDate) filter.date.$lte = new Date(endDate);
    }
  \<close>
  A bound is \<open>None\<close> when the query string is missing or empty; the result is \<open>None\<close>
  when a date is outside the model.
\<close>

definition date_bound :: "string option \<Rightarrow> rat option option" where
  "date_bound q =
     (case q of
        None \<Rightarrow> Some None
      | Some s \<Rightarrow> if s = [] then Some None
                  else (case parse_date s of None \<Rightarrow> None | Some t \<Rightarrow> Some (Some t)))"

definition in_range :: "rat option \<Rightarrow> rat option \<Rightarrow> rat \<Rightarrow> bool" where
  "in_range startDate endDate d =
     ((case startDate of None \<Rightarrow> True | Some s \<Rightarrow> s \<le> d)
      \<and> (case endDate of None \<Rightarrow> True | Some e \<Rightarrow> d \<le> e))"

text \<open>
  The entries are populated with \<open>.populate('transaction_id', 'transaction_id
  description')\<close>, and \<open>TransactionSchema\<close> serialises its virtuals. \<open>res.json\<close> on an
  entry whose transaction is found therefore evaluates
  \<open>this.amount.toLocaleString('en-IN')\<close> on a document without \<open>amount\<close>, which throws.
\<close>

definition serialising_throws :: "ledger_db \<Rightarrow> ledger list \<Rightarrow> bool" where
  "serialising_throws db entries =
     list_ex (\<lambda>e. l_transaction_id e \<in> set (transaction_oids db)) entries"

text \<open>
  The handler. \<open>.sort({ date: 1, createdAt: 1 })\<close> is the stable sort by \<open>date\<close> of the
  collection in creation order. The response is written last, inside the \<open>try\<close> whose
  \<open>catch\<close> answers 500.
\<close>

definition getMemberLedger ::
    "oid \<Rightarrow> string option \<Rightarrow> string option \<Rightarrow> ledger_db \<Rightarrow> (http_error + statement) option" where
  "getMemberLedger m startDate endDate db =
     (if m \<notin> set (member_oids db) then Some (Inl (404, ''Member not found''))
      else
        (case (date_bound startDate, date_bound endDate) of
           (Some lower, Some upper) \<Rightarrow>
             let ledgerEntries =
                   sort_key l_date
                     (filter (\<lambda>e. l_member_id e = m \<and> in_range lower upper (l_date e))
                        (ledgers db));
                 firstEntry = sort_key l_date (filter (\<lambda>e. l_member_id e = m) (ledgers db));
                 openingBalance =
                   (if ledgerEntries \<noteq> [] \<and> firstEntry \<noteq> []
                    then js_add (js_sub (balance (hd firstEntry)) (credit (hd firstEntry)))
                           (debit (hd firstEntry))
                    else 0);
                 closingBalance = (if ledgerEntries \<noteq> [] then balance (last ledgerEntries) else 0)
             in if serialising_throws db ledgerEntries
                  then Some (Inl (500, ''Cannot read properties of undefined (reading 'toLocaleString')''))
                else Some (Inr \<lparr>opening_balance = openingBalance,
                                closing_balance = closingBalance,
                                transactions = ledgerEntries,
                                count = length ledgerEntries\<rparr>)
         | _ \<Rightarrow> None))"

text \<open>What the specification says the opening balance is: from the first entry in range.\<close>

definition spec_opening_balance :: "ledger list \<Rightarrow> rat" where
  "spec_opening_balance ledgerEntries =
     (case ledgerEntries of [] \<Rightarrow> 0 | e # _ \<Rightarrow> js_add (js_sub (balance e) (credit e)) (debit e))"

subsection \<open>\<open>updateLedgerEntry\<close>\<close>

text \<open>
  The request body is a JSON object: its keys in order, each with a value. Values are
  given in the type of the schema path they are for (a number, a string, an ObjectId)
  or are nested objects.
\<close>

text \<open>\<open>const { k1, ..., kn, ...rest } = body\<close>: the object without the named keys.\<close>

definition rest_without :: "string list \<Rightarrow> jsobject \<Rightarrow> jsobject" where
  "rest_without ks body = filter (\<lambda>kv. fst kv \<notin> set ks) body"

definition is_operator :: "string \<Rightarrow> bool" where
  "is_operator k = (k \<noteq> [] \<and> hd k = CHR 0x24)"

text \<open>
  What \<open>findOneAndUpdate(filter, update)\<close> sets: the top-level keys of \<open>update\<close> that
  are not update operators are assignments, and so are the entries of its \<open>$set\<close>
  operator (the top-level keys are applied last). An update with another operator, or
  whose \<open>$set\<close> is not an object, is outside this model (\<open>None\<close>).
\<close>

definition update_set_doc :: "jsobject \<Rightarrow> jsobject option" where
  "update_set_doc upd =
     (if list_ex (\<lambda>kv. is_operator (fst kv) \<and> fst kv \<noteq> ''$set'') upd
        then None
      else (case map_of upd ''$set'' of
              None \<Rightarrow> Some (filter (\<lambda>kv. \<not> is_operator (fst kv)) upd)
            | Some (Obj kvs) \<Rightarrow> Some (kvs @ filter (\<lambda>kv. \<not> is_operator (fst kv)) upd)
            | Some _ \<Rightarrow> None))"

text \<open>
  One assignment on a ledger document. A key that is no path of \<open>LedgerSchema\<close> is
  dropped (strict mode); a value of another type than the path's would be cast by the
  library, which is outside this model (\<open>None\<close>).
\<close>

definition ledger_set :: "string \<times> jsvalue \<Rightarrow> ledger \<Rightarrow> ledger option" where
  "ledger_set kv e =
     (let k = fst kv; v = snd kv in
      if k = ''ledger_id'' then (case v of Str x \<Rightarrow> Some (e\<lparr>ledger_id := x\<rparr>) | _ \<Rightarrow> None)
      else if k = ''branch_id'' then (case v of Oid x \<Rightarrow> Some (e\<lparr>l_branch_id := x\<rparr>) | _ \<Rightarrow> None)
      else if k = ''member_id'' then (case v of Oid x \<Rightarrow> Some (e\<lparr>l_member_id := x\<rparr>) | _ \<Rightarrow> None)
      else if k = ''group_id'' then (case v of Oid x \<Rightarrow> Some (e\<lparr>l_group_id := Some x\<rparr>) | _ \<Rightarrow> None)
      else if k = ''transaction_id''
        then (case v of Oid x \<Rightarrow> Some (e\<lparr>l_transaction_id := x\<rparr>) | _ \<Rightarrow> None)
      else if k = ''date'' then (case v of Num x \<Rightarrow> Some (e\<lparr>l_date := x\<rparr>) | _ \<Rightarrow> None)
      else if k = ''debit'' then (case v of Num x \<Rightarrow> Some (e\<lparr>debit := x\<rparr>) | _ \<Rightarrow> None)
      else if k = ''credit'' then (case v of Num x \<Rightarrow> Some (e\<lparr>credit := x\<rparr>) | _ \<Rightarrow> None)
      else if k = ''balance'' then (case v of Num x \<Rightarrow> Some (e\<lparr>balance := x\<rparr>) | _ \<Rightarrow> None)
      else if k = ''description''
        then (case v of Str x \<Rightarrow> Some (e\<lparr>l_description := Some x\<rparr>) | _ \<Rightarrow> None)
      else if k = ''reference''
        then (case v of Str x \<Rightarrow> Some (e\<lparr>l_reference := Some x\<rparr>) | _ \<Rightarrow> None)
      else Some e)"

fun ledger_set_all :: "jsobject \<Rightarrow> ledger \<Rightarrow> ledger option" where
  "ledger_set_all [] e = Some e"
| "ledger_set_all (kv # kvs) e =
     (case ledger_set kv e of None \<Rightarrow> None | Some e' \<Rightarrow> ledger_set_all kvs e')"

text \<open>Replace the first document with the given \<open>_id\<close>.\<close>

fun replace_ledger :: "oid \<Rightarrow> ledger \<Rightarrow> ledger list \<Rightarrow> ledger list" where
  "replace_ledger i e' [] = []"
| "replace_ledger i e' (e # es) = (if l_oid e = i then e' # es else e # replace_ledger i e' es)"

text \<open>
  \<^verbatim>\<open>
    // Prevent updating certain fields
    const { ledger_id, branch_id, member_id, transaction_id, balance, ...updateData } = req.body;
    const ledgerEntry = await Ledger.findOneAndUpdate({ ... }, updateData,
                                                      { new: true, runValidators: true })
      .populate('branch_id', ...).populate('member_id', ...)
      .populate('transaction_id', 'transaction_id description');
  \<close>
  The update is written by \<open>findOneAndUpdate\<close>; the response is written after it, inside
  the \<open>try\<close> whose \<open>catch\<close> answers 400. When the transaction of the updated entry is
  found, \<open>res.json\<close> throws on its populated transaction, as in \<open>getMemberLedger\<close>: the
  answer is 400 and the update stays written.
\<close>

definition updateLedgerEntry ::
    "oid \<Rightarrow> jsobject \<Rightarrow> ledger_db \<Rightarrow> ((http_error + ledger) \<times> ledger_db) option" where
  "updateLedgerEntry i body db =
     (let updateData =
            rest_without [''ledger_id'', ''branch_id'', ''member_id'', ''transaction_id'', ''balance'']
              body
      in case update_set_doc updateData of
           None \<Rightarrow> None
         | Some setDoc \<Rightarrow>
             (case find (\<lambda>e. l_oid e = i) (ledgers db) of
                None \<Rightarrow> Some (Inl (404, ''Ledger entry not found''), db)
              | Some e \<Rightarrow>
                  (case ledger_set_all setDoc e of
                     None \<Rightarrow> None
                   | Some e' \<Rightarrow>
                       if ledger_id e' \<noteq> ledger_id e
                          \<and> ledger_id e' \<in> set (map ledger_id (ledgers db))
                       then Some (Inl (400, ''E11000 duplicate key error''), db)
                       else Some (if serialising_throws db [e']
                                    then Inl (400, ''Cannot read properties of undefined (reading 'toLocaleString')'')
                                  else Inr e',
                                  db\<lparr>ledgers := replace_ledger i e' (ledgers db)\<rparr>))))"

text \<open>The five fields the handler means to protect.\<close>

definition protected_fields :: "ledger \<Rightarrow> string \<times> oid \<times> oid \<times> oid \<times> rat" where
  "protected_fields e = (ledger_id e, l_branch_id e, l_member_id e, l_transaction_id e, balance e)"

section \<open>Transaction (\<open>models/transaction.js\<close> and \<open>reverseTransaction\<close>)\<close>

datatype transaction_type = Deposit | Withdrawal | Installment | Auction | Commission | Penalty | Other

text \<open>The status enum \<open>['Pending', 'Completed', 'Failed', 'Reversed']\<close>.\<close>

datatype transaction_status = TxnPending | TxnCompleted | TxnFailed | TxnReversed

definition payment_modes :: "string list" where
  "payment_modes = [''Cash'', ''Cheque'', ''Online'', ''Bank Transfer'']"

record transaction =
  t_oid :: oid
  transaction_id :: string
  t_branch_id :: oid
  t_member_id :: "oid option"
  t_group_id :: "oid option"
  transaction_type :: transaction_type
  amount :: rat
  transaction_date :: rat
  t_description :: "string option"
  t_payment_mode :: string
  reference_id :: "string option"
  recorded_by :: oid
  t_status :: transaction_status
  related_transaction :: "oid option"

text \<open>A string field is missing for \<open>required\<close> when it is absent or empty.\<close>

definition missing :: "string option \<Rightarrow> bool" where
  "missing v = (v = None \<or> v = Some [])"

text \<open>
  The validators of \<open>TransactionSchema\<close>, run before a document is saved; the result is
  the first failure, or \<open>None\<close>. \<open>amount\<close> has \<open>min: 0.01\<close> and a validator demanding a
  positive amount for withdrawals and deposits.
\<close>

definition TransactionSchema_validate :: "rat \<Rightarrow> transaction \<Rightarrow> string option" where
  "TransactionSchema_validate now t =
     (if transaction_type t \<notin> {Commission, Other} \<and> t_member_id t = None
        then Some ''Path member_id is required''
      else if transaction_type t \<in> {Installment, Auction} \<and> t_group_id t = None
        then Some ''Path group_id is required''
      else if amount t < 1 / 100
        then Some ''Path amount is less than minimum allowed value (0.01)''
      else if transaction_type t \<in> {Withdrawal, Deposit} \<and> \<not> amount t > 0
        then Some ''Amount must be positive for withdrawals and deposits''
      else if \<not> transaction_date t \<le> now
        then Some ''Transaction date cannot be in the future''
      else if transaction_type t = Other \<and> missing (t_description t)
        then Some ''Path description is required''
      else if t_payment_mode t \<notin> set payment_modes
        then Some ''payment_mode is not a valid enum value''
      else if t_payment_mode t \<in> {''Cheque'', ''Online'', ''Bank Transfer''} \<and> missing (reference_id t)
        then Some ''Path reference_id is required''
      else None)"

text \<open>
  \<open>Transaction.create\<close>: validation, the hook that gives the id, the hook that demands
  a reference for non-cash payments, then the insertion under the unique index.
\<close>

definition Transaction_create ::
    "rat \<Rightarrow> nat \<Rightarrow> transaction \<Rightarrow> transaction list \<Rightarrow> string + (transaction \<times> transaction list)" where
  "Transaction_create now year doc coll =
     (case TransactionSchema_validate now doc of
        Some msg \<Rightarrow> Inl msg
      | None \<Rightarrow>
          let newId = TransactionSchema_pre_save_id year (map transaction_id coll) True
                        (transaction_id doc);
              d = doc\<lparr>transaction_id := newId\<rparr>
          in if t_payment_mode d \<noteq> ''Cash'' \<and> missing (reference_id d)
               then Inl ''Reference ID is required for non-cash payments''
             else if newId \<in> set (map transaction_id coll) then Inl ''E11000 duplicate key error''
             else Inr (d, coll @ [d]))"

fun replace_transaction :: "oid \<Rightarrow> transaction \<Rightarrow> transaction list \<Rightarrow> transaction list" where
  "replace_transaction i t' [] = []"
| "replace_transaction i t' (t # ts) =
     (if t_oid t = i then t' # ts else t # replace_transaction i t' ts)"

text \<open>
  \<open>original.save()\<close> on a stored document whose \<open>status\<close> and \<open>related_transaction\<close>
  were assigned: the validators and the hooks run again (the id is kept), the document
  is written back.
\<close>

definition Transaction_save ::
    "rat \<Rightarrow> transaction \<Rightarrow> transaction list \<Rightarrow> string + transaction list" where
  "Transaction_save now d coll =
     (case TransactionSchema_validate now d of
        Some msg \<Rightarrow> Inl msg
      | None \<Rightarrow>
          if t_payment_mode d \<noteq> ''Cash'' \<and> missing (reference_id d)
            then Inl ''Reference ID is required for non-cash payments''
          else Inr (replace_transaction (t_oid d) d coll))"

definition reverseTransaction ::
    "rat \<Rightarrow> nat \<Rightarrow> oid \<Rightarrow> oid \<Rightarrow> transaction list
      \<Rightarrow> (http_error + (transaction \<times> transaction)) \<times> transaction list" where
  "reverseTransaction now year new_oid i coll =
     (case find (\<lambda>t. t_oid t = i) coll of
        None \<Rightarrow> (Inl (404, ''Transaction not found''), coll)
      | Some original \<Rightarrow>
          if t_status original = TxnReversed
            then (Inl (400, ''Transaction already reversed''), coll)
          else
            (case Transaction_create now year
                    (original\<lparr>t_oid := new_oid, transaction_id := [],
                       amount := - amount original, t_status := TxnCompleted,
                       t_description := Some (''Reversal of '' @ transaction_id original),
                       related_transaction := Some (t_oid original)\<rparr>)
                    coll of
               Inl msg \<Rightarrow> (Inl (400, msg), coll)
             | Inr (reversal, coll') \<Rightarrow>
                 let original' = original\<lparr>t_status := TxnReversed,
                                   related_transaction := Some (t_oid reversal)\<rparr>
                 in (case Transaction_save now original' coll' of
                       Inl msg \<Rightarrow> (Inl (400, msg), coll')
                     | Inr coll'' \<Rightarrow> (Inr (original', reversal), coll''))))"

section \<open>Scheme, branch and member documents\<close>

datatype auction_frequency = Monthly | Weekly | Biweekly

text \<open>
  \<open>SchemeSchema\<close> declares exactly these paths. It declares no \<open>late_fee_rate\<close>.
\<close>

record scheme =
  s_oid :: oid
  scheme_id :: string
  scheme_name :: string
  chit_amount :: rat
  duration_months :: rat
  installment_amount :: rat
  commission_rate :: rat
  min_members :: rat
  max_members :: rat
  auction_frequency :: auction_frequency
  enabled :: bool
  s_created_by :: "oid option"
  s_description :: "string option"

definition auction_frequency_name :: "auction_frequency \<Rightarrow> string" where
  "auction_frequency_name f =
     (case f of Monthly \<Rightarrow> ''Monthly'' | Weekly \<Rightarrow> ''Weekly'' | Biweekly \<Rightarrow> ''Biweekly'')"

text \<open>
  \<open>scheme.p\<close>, the property \<open>p\<close> of a scheme document: the value of the path \<open>p\<close> of the
  schema, and \<open>undefined\<close> (\<open>None\<close>) for a path that has no value and for every name that
  is no path of the schema, whatever the request that created the scheme contained
  (the schema is strict: \<open>Scheme.create\<close> keeps the declared paths only).
\<close>

definition scheme_property :: "string \<Rightarrow> scheme \<Rightarrow> jsvalue option" where
  "scheme_property p s =
     (if p = ''_id'' then Some (Oid (s_oid s))
      else if p = ''scheme_id'' then Some (Str (scheme_id s))
      else if p = ''scheme_name'' then Some (Str (scheme_name s))
      else if p = ''chit_amount'' then Some (Num (chit_amount s))
      else if p = ''duration_months'' then Some (Num (duration_months s))
      else if p = ''installment_amount'' then Some (Num (installment_amount s))
      else if p = ''commission_rate'' then Some (Num (commission_rate s))
      else if p = ''min_members'' then Some (Num (min_members s))
      else if p = ''max_members'' then Some (Num (max_members s))
      else if p = ''auction_frequency'' then Some (Str (auction_frequency_name (auction_frequency s)))
      else if p = ''enabled'' then Some (Bool (enabled s))
      else if p = ''created_by'' then map_option Oid (s_created_by s)
      else if p = ''description'' then map_option Str (s_description s)
      else None)"

record branch =
  br_oid :: oid
  branch_id :: string
  bname :: string

record member =
  m_oid :: oid
  member_id :: string
  m_branch_id :: oid
  mem_name :: string

section \<open>Installment (\<open>models/installment.js\<close>)\<close>

datatype installment_status = Pending | Paid | Partial | Late

record installment =
  i_oid :: oid
  installment_id :: string
  i_group_id :: oid
  i_member_id :: oid
  i_scheme_id :: oid
  installment_number :: "nat option"
  installment_period :: "string option"
  due_date :: rat
  i_amount :: rat
  paid_date :: "rat option"
  paid_amount :: rat
  pending_amount :: rat
  i_status :: installment_status
  late_fee :: rat
  collected_by :: "oid option"
  i_payment_mode :: "string option"

text \<open>
  The largest \<open>installment_number\<close> of the member's installments in the group, plus one;
  \<open>1\<close> when there is none. When the last one carries no number the sum is \<open>NaN\<close>, which
  the \<open>Number\<close> path does not take: the number stays unset (\<open>None\<close>).
\<close>

definition next_installment_number :: "installment \<Rightarrow> installment list \<Rightarrow> nat option" where
  "next_installment_number this coll =
     (let sib = filter (\<lambda>x. i_group_id x = i_group_id this \<and> i_member_id x = i_member_id this) coll;
          nums = List.map_filter installment_number sib
      in if sib = [] then Some 1
         else if nums = [] then None
         else Some (fold max nums 0 + 1))"

text \<open>\<open>`Month ${this.installment_number}`\<close>; an unset number is written \<open>undefined\<close>.\<close>

definition period_label :: "auction_frequency \<Rightarrow> nat option \<Rightarrow> string" where
  "period_label f n =
     (case f of Monthly \<Rightarrow> ''Month '' | Weekly \<Rightarrow> ''Week '' | Biweekly \<Rightarrow> ''Biweek '')
       @ (case n of None \<Rightarrow> ''undefined'' | Some k \<Rightarrow> show_nat k)"

text \<open>
  The \<open>pre('save')\<close> hook of the installment, one definition for each of its commented
  blocks, in the order of the source. First the id and the number of a new document.
\<close>

definition set_installment_id :: "bool \<Rightarrow> installment list \<Rightarrow> installment \<Rightarrow> installment" where
  "set_installment_id isNew coll this =
     (if isNew \<and> installment_id this = []
      then this\<lparr>installment_id := next_sequential_id ''INS'' (map installment_id coll)\<rparr>
      else this)"

definition set_installment_number :: "bool \<Rightarrow> installment list \<Rightarrow> installment \<Rightarrow> installment" where
  "set_installment_number isNew coll this =
     (if isNew \<and> (installment_number this = None \<or> installment_number this = Some 0)
      then this\<lparr>installment_number := next_installment_number this coll\<rparr>
      else this)"

text \<open>\<open>this.pending_amount = this.amount - (this.paid_amount || 0);\<close>\<close>

definition set_pending_amount :: "installment \<Rightarrow> installment" where
  "set_pending_amount this = this\<lparr>pending_amount := i_amount this - paid_amount this\<rparr>"

text \<open>
  \<^verbatim>\<open>
    // Set status based on payment
    if (this.paid_amount && this.paid_amount > 0) {
      if (this.pending_amount <= 0) { this.status = 'Paid'; }
      else if (this.paid_amount < this.amount) { this.status = 'Partial'; }
    }
  \<close>
\<close>

definition set_status_by_payment :: "installment \<Rightarrow> installment" where
  "set_status_by_payment this =
     (if paid_amount this \<noteq> 0 \<and> paid_amount this > 0
      then (if pending_amount this \<le> 0 then this\<lparr>i_status := Paid\<rparr>
            else if paid_amount this < i_amount this then this\<lparr>i_status := Partial\<rparr>
            else this)
      else this)"

text \<open>
  \<^verbatim>\<open>
    // If due date has passed and not fully paid, mark as Late
    if (this.due_date < new Date() && this.pending_amount > 0) { this.status = 'Late'; }
  \<close>
\<close>

definition set_late :: "rat \<Rightarrow> installment \<Rightarrow> installment" where
  "set_late now this =
     (if due_date this < now \<and> pending_amount this > 0 then this\<lparr>i_status := Late\<rparr> else this)"

text \<open>The period label of a new document that has none, from the frequency of its scheme.\<close>

definition set_installment_period :: "bool \<Rightarrow> scheme list \<Rightarrow> installment \<Rightarrow> installment" where
  "set_installment_period isNew schemes this =
     (if isNew \<and> missing (installment_period this)
      then (case find (\<lambda>s. s_oid s = i_scheme_id this) schemes of
              None \<Rightarrow> this
            | Some sch \<Rightarrow>
                this\<lparr>installment_period :=
                       Some (period_label (auction_frequency sch) (installment_number this))\<rparr>)
      else this)"

definition InstallmentSchema_pre_save ::
    "rat \<Rightarrow> bool \<Rightarrow> installment list \<Rightarrow> scheme list \<Rightarrow> installment \<Rightarrow> installment" where
  "InstallmentSchema_pre_save now isNew coll schemes this =
     set_installment_period isNew schemes
       (set_late now
          (set_status_by_payment
             (set_pending_amount
                (set_installment_number isNew coll (set_installment_id isNew coll this)))))"


fun replace_installment :: "oid \<Rightarrow> installment \<Rightarrow> installment list \<Rightarrow> installment list" where
  "replace_installment i x' [] = []"
| "replace_installment i x' (x # xs) =
     (if i_oid x = i then x' # xs else x # replace_installment i x' xs)"

text \<open>
  \<open>installment.save()\<close> on a stored document: validation (the enum of \<open>payment_mode\<close>),
  the hook, the write.
\<close>

definition Installment_save ::
    "rat \<Rightarrow> scheme list \<Rightarrow> installment \<Rightarrow> installment list \<Rightarrow> string + (installment \<times> installment list)" where
  "Installment_save now schemes doc coll =
     (if (case i_payment_mode doc of None \<Rightarrow> False | Some pm \<Rightarrow> pm \<notin> set payment_modes)
        then Inl ''payment_mode is not a valid enum value''
      else let d = InstallmentSchema_pre_save now False coll schemes doc
           in Inr (d, replace_installment (i_oid d) d coll))"

text \<open>
  \<open>Installment.create\<close>: validation, the hook on the new document, the insertion under
  the unique index on \<open>installment_id\<close>.
\<close>

definition Installment_create ::
    "rat \<Rightarrow> scheme list \<Rightarrow> installment \<Rightarrow> installment list \<Rightarrow> string + (installment \<times> installment list)" where
  "Installment_create now schemes doc coll =
     (if (case i_payment_mode doc of None \<Rightarrow> False | Some pm \<Rightarrow> pm \<notin> set payment_modes)
        then Inl ''payment_mode is not a valid enum value''
      else let d = InstallmentSchema_pre_save now True coll schemes doc
           in if installment_id d \<in> set (map installment_id coll)
                then Inl ''E11000 duplicate key error''
              else Inr (d, coll @ [d]))"

section \<open>Receipt (\<open>models/receipt.js\<close>)\<close>

record receipt =
  r_oid :: oid
  receipt_id :: string
  r_branch_id :: oid
  r_member_id :: oid
  r_group_id :: "oid option"
  receipt_date :: rat
  receipt_amount :: rat
  receipt_no :: string
  r_payment_mode :: string
  received_by :: oid
  remarks :: string
  r_status :: string

definition toUpperCase :: "string \<Rightarrow> string" where
  "toUpperCase s =
     map (\<lambda>c. if CHR ''a'' \<le> c \<and> c \<le> CHR ''z'' then char_of ((of_char c :: nat) - 32) else c) s"

text \<open>\<open>s.split('-')\<close>\<close>

fun split_dash :: "string \<Rightarrow> string list" where
  "split_dash [] = [[]]"
| "split_dash (c # cs) =
     (if c = CHR ''-'' then [] # split_dash cs
      else (case split_dash cs of [] \<Rightarrow> [[c]] | p # ps \<Rightarrow> (c # p) # ps))"

text \<open>
  The hook of a new receipt: the global \<open>RCP\<close> id, then the receipt number of the
  branch, \<open>`${branchCode}-${year}-${sequence.toString().padStart(5, '0')}`\<close>. A branch
  that is not found makes \<open>branch.bname\<close> throw.
\<close>

definition ReceiptSchema_pre_save ::
    "nat \<Rightarrow> branch list \<Rightarrow> receipt list \<Rightarrow> receipt \<Rightarrow> string + receipt" where
  "ReceiptSchema_pre_save year branches coll this =
     (let newId = next_sequential_id ''RCP'' (map receipt_id coll)
      in case find (\<lambda>b. br_oid b = r_branch_id this) branches of
           None \<Rightarrow> Inl ''Cannot read properties of null (reading 'bname')''
         | Some br \<Rightarrow>
             let branchCode = toUpperCase (take 3 (bname br));
                 lastReceiptNo =
                   findOne_sort_desc
                     (map receipt_no (filter (\<lambda>r. r_branch_id r = r_branch_id this) coll));
                 sequence =
                   (case lastReceiptNo of
                      None \<Rightarrow> Some 1
                    | Some no \<Rightarrow>
                        if no = [] then Some 1
                        else js_succ (if length (split_dash no) > 2
                                      then parseInt10 (split_dash no ! 2) else None))
             in Inr (this\<lparr>receipt_id := newId,
                       receipt_no := branchCode @ ''-'' @ year_suffix year @ ''-''
                                       @ padStart 5 (CHR ''0'') (js_String sequence)\<rparr>))"

definition Receipt_create ::
    "nat \<Rightarrow> branch list \<Rightarrow> receipt \<Rightarrow> receipt list \<Rightarrow> string + (receipt \<times> receipt list)" where
  "Receipt_create year branches doc coll =
     (if r_payment_mode doc \<notin> set payment_modes then Inl ''payment_mode is not a valid enum value''
      else (case ReceiptSchema_pre_save year branches coll doc of
              Inl msg \<Rightarrow> Inl msg
            | Inr d \<Rightarrow>
                if receipt_id d \<in> set (map receipt_id coll) then Inl ''E11000 duplicate key error''
                else Inr (d, coll @ [d])))"

section \<open>\<open>recordPayment\<close>\<close>

record payment_body =
  pb_paid_amount :: "rat option"
  pb_payment_mode :: "string option"
  pb_collected_by :: "oid option"
  pb_receipt_remarks :: "string option"

record payment_db =
  installments :: "installment list"
  schemes :: "scheme list"
  members :: "member list"
  branches :: "branch list"
  receipts :: "receipt list"

text \<open>
  \<^verbatim>\<open>
    let lateFee = 0;
    if (new Date() > installment.due_date) {
      const daysLate = Math.ceil((new Date() - installment.due_date) / (1000 * 60 * 60 * 24));
      const scheme = await Scheme.findById(installment.scheme_id);
      const lateFeeRate = scheme?.late_fee_rate || 0.02; // Default 2% per day
      lateFee = installment.amount * lateFeeRate * daysLate;
    }
  \<close>
\<close>

text \<open>
  The products and the quotient are those of the doubles, and \<open>0.02\<close> is the double
  nearest to \<open>2/100\<close>. \<open>scheme?.late_fee_rate\<close> is \<open>undefined\<close> when the scheme is \<open>null\<close>
  and is the property of the document otherwise; a number that is not 0 is the rate,
  \<open>undefined\<close> and 0 give the default. No path of the schema has this name, so the
  property is never of another type.
\<close>

definition lateFee :: "rat \<Rightarrow> scheme list \<Rightarrow> installment \<Rightarrow> rat" where
  "lateFee now schs inst =
     (if now > due_date inst then
        let daysLate = \<lceil>js_div (js_sub now (due_date inst)) (1000 * 60 * 60 * 24)\<rceil>;
            scheme = find (\<lambda>s. s_oid s = i_scheme_id inst) schs;
            lateFeeRate = (case Option.bind scheme (scheme_property ''late_fee_rate'') of
                             Some (Num r) \<Rightarrow> if r = 0 then round_double (2 / 100) else r
                           | _ \<Rightarrow> round_double (2 / 100))
        in js_mul (js_mul (i_amount inst) lateFeeRate) (of_int daysLate)
      else 0)"

text \<open>
  The handler. \<open>year\<close> is the calendar year of \<open>now\<close>, \<open>new_oid\<close> the \<open>_id\<close> of the
  receipt, \<open>employee\<close> is \<open>req.employee._id\<close>. The \<open>paid_amount\<close> of the request is a
  number when it is given; a missing \<open>paid_amount\<close> makes the new \<open>paid_amount\<close> \<open>NaN\<close>,
  which the save rejects.
\<close>

definition recordPayment ::
    "rat \<Rightarrow> nat \<Rightarrow> oid \<Rightarrow> oid \<Rightarrow> oid \<Rightarrow> payment_body \<Rightarrow> payment_db
      \<Rightarrow> (http_error + (installment \<times> receipt)) \<times> payment_db" where
  "recordPayment now year new_oid employee i body db =
     (case find (\<lambda>x. i_oid x = i) (installments db) of
        None \<Rightarrow> (Inl (404, ''Installment not found''), db)
      | Some inst \<Rightarrow>
          if i_status inst = Paid \<and> pending_amount inst \<le> 0
            then (Inl (400, ''Installment already fully paid''), db)
          else
            (case pb_paid_amount body of
               None \<Rightarrow> (Inl (400, ''Cast to Number failed for value NaN at path paid_amount''), db)
             | Some paid \<Rightarrow>
                 let who = (case pb_collected_by body of None \<Rightarrow> employee | Some c \<Rightarrow> c);
                     inst1 = inst\<lparr>paid_amount := paid_amount inst + paid,
                               paid_date := Some now,
                               late_fee := lateFee now (schemes db) inst,
                               i_status := (if pending_amount inst \<le> paid then Paid
                                            else if paid_amount inst + paid > 0 then Partial
                                            else Pending),
                               i_payment_mode := pb_payment_mode body,
                               collected_by := Some who\<rparr>
                 in (case Installment_save now (schemes db) inst1 (installments db) of
                       Inl msg \<Rightarrow> (Inl (400, msg), db)
                     | Inr (saved, coll) \<Rightarrow>
                         let db1 = db\<lparr>installments := coll\<rparr>
                         in (case find (\<lambda>m. m_oid m = i_member_id saved) (members db) of
                               None \<Rightarrow> (Inl (400, ''Cannot read properties of null (reading 'branch_id')''), db1)
                             | Some mem \<Rightarrow>
                                 (case Receipt_create year (branches db)
                                         \<lparr>r_oid = new_oid, receipt_id = [],
                                          r_branch_id = m_branch_id mem,
                                          r_member_id = i_member_id saved,
                                          r_group_id = Some (i_group_id saved),
                                          receipt_date = now, receipt_amount = paid,
                                          receipt_no = [],
                                          r_payment_mode =
                                            (case pb_payment_mode body of None \<Rightarrow> ''Cash'' | Some pm \<Rightarrow> pm),
                                          received_by = who,
                                          remarks =
                                            (if missing (pb_receipt_remarks body)
                                             then ''Payment for ''
                                                  @ (case installment_period saved of
                                                       None \<Rightarrow> ''undefined'' | Some p \<Rightarrow> p)
                                                  @ '' installment''
                                             else the (pb_receipt_remarks body)),
                                          r_status = ''Completed''\<rparr>
                                         (receipts db) of
                                    Inl msg \<Rightarrow> (Inl (400, msg), db1)
                                  | Inr (rcpt, rs) \<Rightarrow> (Inr (saved, rcpt), db1\<lparr>receipts := rs\<rparr>))))))"

section \<open>Group (\<open>models/group.js\<close> and \<open>addGroupMember\<close>)\<close>

datatype group_status = Forming | Active | Completed

record group_member =
  gm_member_id :: oid
  join_date :: rat
  payout_month :: "rat option"
  payout_received :: bool

record chit_group =
  g_oid :: oid
  group_id :: string
  g_branch_id :: oid
  g_scheme_id :: oid
  start_date :: rat
  g_status :: group_status
  g_members :: "group_member list"
  current_month :: rat

record group_db =
  gd_member_oids :: "oid list"
  gd_schemes :: "scheme list"
  groups :: "chit_group list"

text \<open>The request body of \<open>addGroupMember\<close>; \<open>payout_month\<close> is a number when it is given.\<close>

record add_member_body =
  am_member_id :: "oid option"
  am_payout_month :: "rat option"

text \<open>
  Saving a stored group: the validators of the member sub-documents (\<open>payout_month\<close> is
  required, with \<open>min: 1\<close>), then the second hook:
  \<^verbatim>\<open>
    const payoutMonths = this.members.map(m => m.payout_month);
    if (new Set(payoutMonths).size !== payoutMonths.length) throw ...
    const scheme = await mongoose.model('Scheme').findById(this.scheme_id);
    if (!scheme) throw ...
    for (const member of this.members)
      if (member.payout_month > scheme.duration_months) throw ...
  \<close>
\<close>

definition groupSchema_save_check :: "scheme list \<Rightarrow> chit_group \<Rightarrow> string option" where
  "groupSchema_save_check schs g =
     (if list_ex (\<lambda>m. payout_month m = None) (g_members g)
        then Some ''Path payout_month is required''
      else if list_ex (\<lambda>m. the (payout_month m) < 1) (g_members g)
        then Some ''Path payout_month is less than minimum allowed value (1)''
      else if \<not> distinct (map payout_month (g_members g))
        then Some ''Duplicate payout months not allowed''
      else (case find (\<lambda>s. s_oid s = g_scheme_id g) schs of
              None \<Rightarrow> Some ''Referenced scheme not found''
            | Some sch \<Rightarrow>
                if list_ex (\<lambda>m. the (payout_month m) > duration_months sch) (g_members g)
                  then Some ''Payout month exceeds scheme duration''
                else None))"

fun replace_group :: "oid \<Rightarrow> chit_group \<Rightarrow> chit_group list \<Rightarrow> chit_group list" where
  "replace_group i g' [] = []"
| "replace_group i g' (g # gs) = (if g_oid g = i then g' # gs else g # replace_group i g' gs)"

definition addGroupMember ::
    "rat \<Rightarrow> oid \<Rightarrow> add_member_body \<Rightarrow> group_db \<Rightarrow> (http_error + chit_group) \<times> group_db" where
  "addGroupMember now i body db =
     (case (case am_member_id body of
              None \<Rightarrow> None
            | Some m \<Rightarrow> if m \<in> set (gd_member_oids db) then Some m else None) of
        None \<Rightarrow> (Inl (404, ''Member not found''), db)
      | Some mid \<Rightarrow>
          (case find (\<lambda>g. g_oid g = i) (groups db) of
             None \<Rightarrow> (Inl (404, ''Group not found''), db)
           | Some grp \<Rightarrow>
               if list_ex (\<lambda>m. gm_member_id m = mid) (g_members grp)
                 then (Inl (400, ''Member already in group''), db)
               else if list_ex (\<lambda>m. payout_month m = am_payout_month body) (g_members grp)
                 then (Inl (400, ''Payout month already assigned''), db)
               else
                 let grp1 = grp\<lparr>g_members := g_members grp
                                   @ [\<lparr>gm_member_id = mid, join_date = now,
                                       payout_month = am_payout_month body,
                                       payout_received = False\<rparr>]\<rparr>
                 in (case find (\<lambda>s. s_oid s = g_scheme_id grp1) (gd_schemes db) of
                       None \<Rightarrow> (Inl (400, ''Cannot read properties of null (reading 'min_members')''), db)
                     | Some sch \<Rightarrow>
                         let grp2 = (if of_nat (length (g_members grp1)) \<ge> min_members sch
                                        \<and> g_status grp1 = Forming
                                     then grp1\<lparr>g_status := Active\<rparr> else grp1)
                         in (case groupSchema_save_check (gd_schemes db) grp2 of
                               Some msg \<Rightarrow> (Inl (400, msg), db)
                             | None \<Rightarrow>
                                 (Inr grp2, db\<lparr>groups := replace_group i grp2 (groups db)\<rparr>)))))"

section \<open>Example data\<close>

text \<open>
  The times are midnight UTC of 1 January, 1 February and 1 March 2026 and moments
  after them.
\<close>

definition ex_db :: ledger_db where
  "ex_db = \<lparr>branch_oids = [1], member_oids = [7, 8], transaction_oids = [20, 21, 22],
            group_oids = [], ledgers = []\<rparr>"

definition ex_body :: "oid \<Rightarrow> oid \<Rightarrow> jsvalue option \<Rightarrow> jsvalue option \<Rightarrow> ledger_body" where
  "ex_body m t d c = \<lparr>b_branch_id = Some 1, b_member_id = Some m, b_group_id = None,
     b_transaction_id = Some t, b_debit = d, b_credit = c, b_description = None,
     b_reference = None\<rparr>"

definition ex_reqs :: "(rat \<times> oid \<times> ledger_body) list" where
  "ex_reqs = [(1767225600000, 101, ex_body 7 20 None (Some (Num 100))),
              (1769904000000, 102, ex_body 8 21 None (Some (Num 40))),
              (1772323200000, 103, ex_body 7 22 (Some (Num 30)) None)]"

definition ex_entry :: "oid \<Rightarrow> string \<Rightarrow> oid \<Rightarrow> oid \<Rightarrow> rat \<Rightarrow> rat \<Rightarrow> rat \<Rightarrow> rat \<Rightarrow> ledger" where
  "ex_entry i lid m t dt d c b =
     \<lparr>l_oid = i, ledger_id = lid, l_branch_id = 1, l_member_id = m, l_group_id = None,
      l_transaction_id = t, l_date = dt, debit = d, credit = c, balance = b,
      l_description = None, l_reference = None\<rparr>"

definition ex_ledger_db :: ledger_db where
  "ex_ledger_db = ex_db\<lparr>ledgers := [ex_entry 101 ''LGR001'' 7 20 1767225600000 0 100 100]\<rparr>"

definition ex_txn :: transaction where
  "ex_txn = \<lparr>t_oid = 20, transaction_id = ''TXN26001'', t_branch_id = 1, t_member_id = Some 7,
     t_group_id = None, transaction_type = Deposit, amount = 500, transaction_date = 1000,
     t_description = None, t_payment_mode = ''Cash'', reference_id = None, recorded_by = 3,
     t_status = TxnCompleted, related_transaction = None\<rparr>"

definition ex_inst :: "rat \<Rightarrow> rat \<Rightarrow> rat \<Rightarrow> rat \<Rightarrow> installment_status \<Rightarrow> installment" where
  "ex_inst due amt paid pend st =
     \<lparr>i_oid = 30, installment_id = ''INS001'', i_group_id = 5, i_member_id = 7, i_scheme_id = 9,
      installment_number = Some 1, installment_period = Some ''Month 1'', due_date = due,
      i_amount = amt, paid_date = None, paid_amount = paid, pending_amount = pend,
      i_status = st, late_fee = 0, collected_by = None, i_payment_mode = Some ''Cash''\<rparr>"

definition ex_scheme :: scheme where
  "ex_scheme = \<lparr>s_oid = 9, scheme_id = ''SCH001'', scheme_name = ''Gold'', chit_amount = 10000,
     duration_months = 10, installment_amount = 1000, commission_rate = 5, min_members = 5,
     max_members = 10, auction_frequency = Monthly, enabled = True, s_created_by = Some 3,
     s_description = Some ''Ten months''\<rparr>"

definition ex_payment_db :: "installment \<Rightarrow> payment_db" where
  "ex_payment_db inst =
     \<lparr>installments = [inst], schemes = [ex_scheme],
      members = [\<lparr>m_oid = 7, member_id = ''MEM001'', m_branch_id = 1, mem_name = ''Asha''\<rparr>],
      branches = [\<lparr>br_oid = 1, branch_id = ''BRN001'', bname = ''Madurai''\<rparr>],
      receipts = []\<rparr>"

definition ex_payment :: "rat \<Rightarrow> payment_body" where
  "ex_payment p = \<lparr>pb_paid_amount = Some p, pb_payment_mode = Some ''Cash'',
     pb_collected_by = None, pb_receipt_remarks = None\<rparr>"

definition ex_gm :: "oid \<Rightarrow> rat \<Rightarrow> group_member" where
  "ex_gm m pm = \<lparr>gm_member_id = m, join_date = 100, payout_month = Some pm, payout_received = False\<rparr>"

definition ex_group :: "group_status \<Rightarrow> group_member list \<Rightarrow> chit_group" where
  "ex_group st ms = \<lparr>g_oid = 5, group_id = ''GRP001'', g_branch_id = 1, g_scheme_id = 9,
     start_date = 50, g_status = st, g_members = ms, current_month = 1\<rparr>"

definition ex_four :: "group_member list" where
  "ex_four = [ex_gm 11 1, ex_gm 12 2, ex_gm 13 3, ex_gm 14 4]"

definition ex_group_db :: group_db where
  "ex_group_db = \<lparr>gd_member_oids = [11, 12, 13, 14, 15], gd_schemes = [ex_scheme],
     groups = [ex_group Forming ex_four]\<rparr>"

definition ex_add :: "oid \<Rightarrow> rat \<Rightarrow> add_member_body" where
  "ex_add m pm = \<lparr>am_member_id = Some m, am_payout_month = Some pm\<rparr>"

section \<open>Properties of the doubles\<close>

text \<open>
  The integers below \<open>2^53\<close> are doubles, and \<open>String\<close> writes them with their decimal
  digits.
\<close>

lemma round_half_even_of_int: "round_half_even (of_int m) = m"
  by (simp add: round_half_even_def)

lemma bitlen_pos: "0 < n \<Longrightarrow> 1 \<le> bitlen n"
  by (simp add: bitlen_ge_iff_power)

lemma ilog2_of_int:
  assumes "0 < n"
  shows "ilog2 (of_int n) = bitlen n - 1"
proof -
  have b: "0 \<le> bitlen n - 1" using bitlen_pos [OF assms] by simp
  have "2 ^ nat (bitlen n - 1) \<le> n" using bitlen_bounds [OF assms] by simp
  then have "(of_int (2 ^ nat (bitlen n - 1)) :: rat) \<le> of_int n" by (simp only: of_int_le_iff)
  then have "power_int (2::rat) (bitlen n - 1) \<le> of_int n"
    using b by (simp add: power_int_def)
  moreover have "bitlen 1 = 1" by (simp add: bitlen_def floorlog_def)
  ultimately show ?thesis by (simp add: ilog2_def Let_def)
qed

lemma round_double_of_int:
  assumes "0 < n" and "n < 2 ^ 53"
  shows "round_double (of_int n) = of_int n"
proof -
  have "bitlen n \<le> 53" using assms by (simp add: bitlen_le_iff_power)
  then have "0 \<le> 53 - bitlen n" by simp
  then obtain k where k: "53 - bitlen n = int k" using nonneg_int_cases by blast
  have e: "max (ilog2 \<bar>of_int n\<bar>) (- 1022) - 52 = - int k"
  proof -
    have "\<bar>(of_int n :: rat)\<bar> = of_int n" using assms(1) by simp
    then have "ilog2 \<bar>of_int n\<bar> = bitlen n - 1" using ilog2_of_int [OF assms(1)] by simp
    moreover have "1 \<le> bitlen n" by (rule bitlen_pos [OF assms(1)])
    ultimately show ?thesis using k by simp
  qed
  have q: "power_int (2::rat) (- int k) = 1 / 2 ^ k"
    by (simp add: power_int_def field_simps)
  have "(of_int n :: rat) / (1 / 2 ^ k) = of_int (n * 2 ^ k)" by simp
  then have r: "round_half_even (of_int n / (1 / 2 ^ k)) = n * 2 ^ k"
    by (simp only: round_half_even_of_int)
  have nz: "(of_int n :: rat) \<noteq> 0" using assms(1) by simp
  show ?thesis
    unfolding round_double_def Let_def e q r using nz by simp
qed

lemma round_double_of_nonneg_int:
  "0 \<le> n \<Longrightarrow> n < 2 ^ 53 \<Longrightarrow> round_double (of_int n) = of_int n"
  using round_double_of_int [of n] by (cases "n = 0") (simp_all add: round_double_def)

lemma show_digits_nat: "show_digits (int k) = show_nat k"
proof (induction k rule: show_nat.induct)
  case (1 n)
  show ?case
  proof (cases "n < 10")
    case True
    then show ?thesis by (simp add: show_nat.simps [of n] show_digits.simps [of "int n"])
  next
    case False
    with 1 have "show_digits (int (n div 10)) = show_nat (n div 10)" by simp
    moreover have "int n div 10 = int (n div 10)" "int n mod 10 = int (n mod 10)"
      by (simp_all add: zdiv_int zmod_int)
    ultimately show ?thesis using False
      by (simp add: show_nat.simps [of n] show_digits.simps [of "int n"])
  qed
qed

lemma js_number_to_string_nat:
  assumes "int k < 2 ^ 53"
  shows "js_number_to_string (of_nat k) = show_nat k"
proof -
  have a: "\<not> (of_nat k :: rat) < 0" by simp
  have f: "\<lfloor>\<bar>(of_nat k :: rat)\<bar>\<rfloor> = int k" by simp
  have "(of_int (int k) :: rat) < of_int (2 ^ 53)" using assms by (simp only: of_int_less_iff)
  then have "(of_nat k :: rat) < 2 ^ 53" by simp
  moreover have "(2::rat) ^ 53 < 2 ^ 1024" by simp
  ultimately have b: "\<not> 2 ^ 1024 \<le> \<bar>(of_nat k :: rat)\<bar>" by simp
  have s: "shortest_decimal (int k) = int k" using assms by (simp add: shortest_decimal_def)
  have "int k < 10 ^ 21" using assms by simp
  then show ?thesis
    unfolding js_number_to_string_def f Let_def s
    using a b by (simp add: show_digits_nat)
qed

lemma js_String_succ:
  assumes "int n + 1 < 2 ^ 53"
  shows "js_String (js_succ (Some (of_nat n))) = show_nat (Suc n)"
proof -
  have "round_double (of_int (int n + 1)) = of_int (int n + 1)"
    using assms by (intro round_double_of_nonneg_int) simp_all
  then have "js_add (of_nat n) 1 = of_nat (Suc n)"
    by (simp add: js_add_def)
  moreover have "int (Suc n) < 2 ^ 53" using assms by simp
  ultimately show ?thesis
    by (simp add: js_String_def js_succ_def js_number_to_string_nat del: of_nat_Suc)
qed

section \<open>Properties of the sequential identifiers\<close>

lemma of_char_digit_char: "d < 10 \<Longrightarrow> (of_char (digit_char d) :: nat) = 48 + d"
  by (simp add: digit_char_def)

lemma is_digit_digit_char: "d < 10 \<Longrightarrow> is_digit (digit_char d)"
  by (simp add: is_digit_def less_eq_char_def of_char_digit_char)

lemma of_char_int: "(of_char c :: int) = int (of_char c)"
  by (simp add: of_char_def)

lemma digit_val_digit_char: "d < 10 \<Longrightarrow> digit_val (digit_char d) = int d"
  by (simp add: digit_val_def of_char_int of_char_digit_char)

lemma is_digit_zero: "is_digit (CHR ''0'')"
  by (simp add: is_digit_def less_eq_char_def)

lemma digit_not_space: "is_digit c \<Longrightarrow> \<not> is_space c"
  by (auto simp: is_digit_def is_space_def less_eq_char_def)

lemma digit_not_sign: "is_digit c \<Longrightarrow> c \<noteq> CHR ''-'' \<and> c \<noteq> CHR ''+''"
  by (auto simp: is_digit_def less_eq_char_def)

lemma findOne_sort_desc_Max:
  "xs \<noteq> [] \<Longrightarrow> findOne_sort_desc xs = Some (Max (set xs))"
proof (induction xs)
  case Nil
  then show ?case by simp
next
  case (Cons x xs)
  show ?case
  proof (cases "xs = []")
    case True
    then show ?thesis by simp
  next
    case False
    with Cons.IH have "findOne_sort_desc xs = Some (Max (set xs))" by simp
    with False show ?thesis by simp
  qed
qed

lemma findOne_sort_desc_None: "findOne_sort_desc xs = None \<longleftrightarrow> xs = []"
  by (cases xs) (auto split: option.splits)

lemma replace_first_prefix: "replace_first p (p @ r) = r"
proof (cases "p @ r")
  case Nil
  then show ?thesis by simp
next
  case (Cons a list)
  have t: "take (length p) (a # list) = p" and d: "drop (length p) (a # list) = r"
    by (simp_all add: Cons [symmetric])
  have "replace_first p (a # list) = r"
    by (simp only: replace_first.simps t d if_True simp_thms)
  with Cons show ?thesis by simp
qed

lemma digits_value_snoc: "digits_value (ds @ [c]) = 10 * digits_value ds + digit_val c"
  by (simp add: digits_value_def)

lemma show_nat_digits: "\<forall>c \<in> set (show_nat n). is_digit c"
proof (induction n rule: show_nat.induct)
  case (1 n)
  show ?case
  proof (cases "n < 10")
    case True
    then show ?thesis by (simp add: show_nat.simps [of n] is_digit_digit_char)
  next
    case False
    with 1 show ?thesis by (simp add: show_nat.simps [of n] is_digit_digit_char)
  qed
qed

lemma show_nat_nonempty: "show_nat n \<noteq> []"
  by (simp add: show_nat.simps [of n])

lemma digits_value_show_nat: "digits_value (show_nat n) = int n"
proof (induction n rule: show_nat.induct)
  case (1 n)
  show ?case
  proof (cases "n < 10")
    case True
    then show ?thesis
      by (simp add: show_nat.simps [of n] digits_value_def digit_val_digit_char)
  next
    case False
    with 1 have "digits_value (show_nat (n div 10)) = int (n div 10)" by simp
    with False show ?thesis
      by (simp add: show_nat.simps [of n] digits_value_snoc digit_val_digit_char zdiv_int zmod_int)
  qed
qed

lemma foldl_digits_zero:
  "foldl (\<lambda>a c. 10 * a + digit_val c) 0 (replicate k (CHR ''0'')) = 0"
  by (induction k) (simp_all add: digit_val_def)

lemma digits_value_pad: "digits_value (padStart k (CHR ''0'') ds) = digits_value ds"
  by (simp add: padStart_def digits_value_def foldl_digits_zero)

lemma padStart_digits:
  "\<forall>c \<in> set ds. is_digit c \<Longrightarrow> \<forall>c \<in> set (padStart k (CHR ''0'') ds). is_digit c"
  by (auto simp: padStart_def is_digit_zero)

lemma digit_val_nonneg: "is_digit c \<Longrightarrow> 0 \<le> digit_val c"
  by (simp add: is_digit_def digit_val_def less_eq_char_def of_char_int)

lemma digits_value_nonneg: "\<forall>c \<in> set ds. is_digit c \<Longrightarrow> 0 \<le> digits_value ds"
proof (induction ds rule: rev_induct)
  case Nil
  then show ?case by (simp add: digits_value_def)
next
  case (snoc c ds)
  then have "0 \<le> digits_value ds" and "0 \<le> digit_val c"
    by (simp_all add: digit_val_nonneg)
  then show ?case by (simp add: digits_value_snoc)
qed

lemma parseInt10_digits:
  assumes "ds \<noteq> []" and "\<forall>c \<in> set ds. is_digit c"
  shows "parseInt10 ds = Some (round_double (of_int (digits_value ds)))"
proof -
  from assms obtain c cs where ds: "ds = c # cs" by (cases ds) auto
  with assms have c: "is_digit c" by simp
  have dw: "dropWhile is_space ds = ds"
    using c ds by (simp add: digit_not_space)
  have tw: "takeWhile is_digit ds = ds"
    using assms(2) by simp
  have hd: "hd ds \<noteq> CHR ''-''" "hd ds \<noteq> CHR ''+''"
    using digit_not_sign [OF c] ds by simp_all
  show ?thesis
    using assms(1) by (simp add: parseInt10_def Let_def dw hd tw)
qed

lemma parseInt10_succ:
  assumes "ds \<noteq> []" and "\<forall>c \<in> set ds. is_digit c" and "digits_value ds + 1 < 2 ^ 53"
  shows "js_String (js_succ (parseInt10 ds)) = show_nat (Suc (nat (digits_value ds)))"
proof -
  have n: "0 \<le> digits_value ds" by (rule digits_value_nonneg [OF assms(2)])
  then have "round_double (of_int (digits_value ds)) = of_int (digits_value ds)"
    using assms(3) by (intro round_double_of_nonneg_int) simp_all
  also have "\<dots> = of_nat (nat (digits_value ds))" using n by simp
  finally have "parseInt10 ds = Some (of_nat (nat (digits_value ds)))"
    by (simp only: parseInt10_digits [OF assms(1,2)])
  moreover have "int (nat (digits_value ds)) + 1 < 2 ^ 53" using n assms(3) by simp
  ultimately show ?thesis by (simp only: js_String_succ)
qed

lemma digit_char_0: "digit_char 0 = CHR ''0''"
  by (simp add: digit_char_def char_of_eq_iff)

lemma padStart3_small:
  "n < 1000 \<Longrightarrow> padStart 3 (CHR ''0'') (show_nat n) =
     [digit_char (n div 100), digit_char (n div 10 mod 10), digit_char (n mod 10)]"
proof -
  assume n: "n < 1000"
  consider "n < 10" | "10 \<le> n" "n < 100" | "100 \<le> n" by linarith
  then show ?thesis
  proof cases
    case 1
    then show ?thesis
      by (simp add: show_nat.simps [of n] padStart_def digit_char_0 numeral_3_eq_3 numeral_2_eq_2)
  next
    case 2
    then have "n div 10 < 10" by simp
    with 2 show ?thesis
      by (simp add: show_nat.simps [of n] show_nat.simps [of "n div 10"] padStart_def
          digit_char_0)
  next
    case 3
    with n have a: "\<not> n div 10 < 10" and b: "n div 100 < 10" by simp_all
    have c: "n div 10 div 10 = n div 100" by (simp add: div_mult2_eq [symmetric])
    have s1: "show_nat n = show_nat (n div 10) @ [digit_char (n mod 10)]"
      using 3 by (subst show_nat.simps) simp
    have s2: "show_nat (n div 10) = show_nat (n div 100) @ [digit_char (n div 10 mod 10)]"
      using a by (subst show_nat.simps) (simp only: c if_False)
    have s3: "show_nat (n div 100) = [digit_char (n div 100)]"
      using b by (subst show_nat.simps) simp
    show ?thesis
      by (simp add: s1 s2 s3 padStart_def)
  qed
qed

lemma digit_char_less: "a < 10 \<Longrightarrow> b < 10 \<Longrightarrow> digit_char a < digit_char b \<longleftrightarrow> a < b"
  by (simp add: less_char_def of_char_digit_char)

lemma digit_char_eq: "a < 10 \<Longrightarrow> b < 10 \<Longrightarrow> digit_char a = digit_char b \<longleftrightarrow> a = b"
  using digit_char_less [of a b] digit_char_less [of b a] by (auto simp: not_less_iff_gr_or_eq)

lemma append_less_cancel: "(p @ a < p @ b) = (a < (b :: string))"
  by (induction p) simp_all

lemma three_digits_less:
  fixes a b c a' b' c' :: nat
  assumes "100 * a + 10 * b + c < 100 * a' + 10 * b' + c'"
    and "b < 10" "c < 10" "b' < 10" "c' < 10"
  shows "a < a' \<or> (a = a' \<and> (b < b' \<or> (b = b' \<and> c < c')))"
  using assms by linarith

lemma three_digits_split: "(n::nat) = 100 * (n div 100) + 10 * (n div 10 mod 10) + n mod 10"
proof -
  have "n = 10 * (n div 10) + n mod 10" by simp
  moreover have "n div 10 = 10 * (n div 10 div 10) + n div 10 mod 10" by simp
  moreover have "n div 10 div 10 = n div 100" by (simp add: div_mult2_eq [symmetric])
  ultimately show ?thesis by linarith
qed

lemma padded_small_mono:
  assumes "i < j" and "j < 1000"
  shows "padded_id pfx i < padded_id pfx j"
proof -
  have i: "i < 1000" using assms by simp
  have d: "i div 100 < 10" "j div 100 < 10" "i div 10 mod 10 < 10" "j div 10 mod 10 < 10"
    "i mod 10 < 10" "j mod 10 < 10"
    using i assms(2) by simp_all
  have "100 * (i div 100) + 10 * (i div 10 mod 10) + i mod 10
      < 100 * (j div 100) + 10 * (j div 10 mod 10) + j mod 10"
    using assms(1) three_digits_split [of i] three_digits_split [of j] by simp
  from three_digits_less [OF this d(3) d(5) d(4) d(6)]
  have "digit_char (i div 100) < digit_char (j div 100)
      \<or> (digit_char (i div 100) = digit_char (j div 100)
          \<and> (digit_char (i div 10 mod 10) < digit_char (j div 10 mod 10)
            \<or> (digit_char (i div 10 mod 10) = digit_char (j div 10 mod 10)
                \<and> digit_char (i mod 10) < digit_char (j mod 10))))"
    by (simp only: digit_char_less d digit_char_eq)
  then show ?thesis
    unfolding padded_id_def append_less_cancel padStart3_small [OF i]
      padStart3_small [OF assms(2)]
    by (simp only: Cons_less_Cons not_less_Nil simp_thms)
qed

lemma next_sequential_id_wellformed:
  assumes "findOne_sort_desc ids = Some (pfx @ ds)" and "ds \<noteq> []"
    and "\<forall>c \<in> set ds. is_digit c" and "digits_value ds + 1 < 2 ^ 53"
  shows "next_sequential_id pfx ids = padded_id pfx (Suc (nat (digits_value ds)))"
  using assms(1,2)
  by (simp add: next_sequential_id_def replace_first_prefix parseInt10_succ [OF assms(2,3,4)]
      padded_id_def)

lemma next_sequential_id_padded:
  assumes "findOne_sort_desc ids = Some (padded_id pfx n)" and "n \<le> 1000"
  shows "next_sequential_id pfx ids = padded_id pfx (Suc n)"
proof -
  let ?ds = "padStart 3 (CHR ''0'') (show_nat n)"
  have ne: "?ds \<noteq> []" by (simp add: padStart_def show_nat_nonempty)
  have dg: "\<forall>c \<in> set ?ds. is_digit c"
    by (rule padStart_digits) (rule show_nat_digits)
  have v: "digits_value ?ds = int n" by (simp add: digits_value_pad digits_value_show_nat)
  have b: "digits_value ?ds + 1 < 2 ^ 53" using assms(2) by (simp add: v)
  have "next_sequential_id pfx ids = padded_id pfx (Suc (nat (digits_value ?ds)))"
    using assms(1) ne dg b by (intro next_sequential_id_wellformed) (simp_all add: padded_id_def)
  then show ?thesis by (simp add: v)
qed

lemma padded_id_inj: "padded_id pfx i = padded_id pfx j \<Longrightarrow> i = j"
proof -
  assume "padded_id pfx i = padded_id pfx j"
  then have "digits_value (padStart 3 (CHR ''0'') (show_nat i))
    = digits_value (padStart 3 (CHR ''0'') (show_nat j))"
    by (simp add: padded_id_def)
  then show ?thesis by (simp add: digits_value_pad digits_value_show_nat)
qed

lemma seq_ids_Suc: "seq_ids pfx (Suc n) = seq_ids pfx n @ [padded_id pfx (Suc n)]"
  by (simp add: seq_ids_def)

lemma set_seq_ids: "set (seq_ids pfx n) = padded_id pfx ` {1..n}"
  by (auto simp: seq_ids_def)

lemma last_seq_ids_small:
  assumes "1 \<le> n" and "n < 1000"
  shows "findOne_sort_desc (seq_ids pfx n) = Some (padded_id pfx n)"
proof -
  have ne: "seq_ids pfx n \<noteq> []" using assms(1) by (simp add: seq_ids_def)
  have "Max (set (seq_ids pfx n)) = padded_id pfx n"
  proof (rule Max_eqI)
    show "finite (set (seq_ids pfx n))" by simp
    show "padded_id pfx n \<in> set (seq_ids pfx n)"
      using assms(1) by (simp add: set_seq_ids)
    fix y assume "y \<in> set (seq_ids pfx n)"
    then obtain k where k: "y = padded_id pfx k" "1 \<le> k" "k \<le> n"
      by (auto simp: set_seq_ids)
    show "y \<le> padded_id pfx n"
    proof (cases "k = n")
      case True
      with k show ?thesis by simp
    next
      case False
      with k have "k < n" by simp
      from padded_small_mono [OF this assms(2), of pfx] k show ?thesis
        by (simp add: less_imp_le)
    qed
  qed
  with findOne_sort_desc_Max [OF ne] show ?thesis by simp
qed

lemma create_record_padded:
  assumes "findOne_sort_desc ids = Some (padded_id pfx n)"
    and "padded_id pfx (Suc n) \<notin> set ids" and "n \<le> 1000"
  shows "create_record pfx ids = Inr (ids @ [padded_id pfx (Suc n)])"
  using assms by (simp add: create_record_def pre_save_id_def next_sequential_id_padded Let_def)

lemma padded_id_1: "padded_id pfx 1 = pfx @ ''001''"
proof -
  have "padStart 3 (CHR ''0'') (show_nat 1) = ''001''" by code_simp
  then show ?thesis by (simp add: padded_id_def)
qed

lemma create_record_empty: "create_record pfx [] = Inr [padded_id pfx (Suc 0)]"
  using padded_id_1 [of pfx]
  by (simp add: create_record_def pre_save_id_def next_sequential_id_def Let_def)

lemma create_many_small: "n \<le> 1000 \<Longrightarrow> create_many pfx n [] = Inr (seq_ids pfx n)"
proof (induction n)
  case 0
  then show ?case by (simp add: seq_ids_def)
next
  case (Suc n)
  then have IH: "create_many pfx n [] = Inr (seq_ids pfx n)" and n: "n < 1000" by simp_all
  show ?case
  proof (cases "n = 0")
    case True
    then show ?thesis by (simp add: seq_ids_def create_record_empty)
  next
    case False
    then have l: "findOne_sort_desc (seq_ids pfx n) = Some (padded_id pfx n)"
      using n by (intro last_seq_ids_small) simp_all
    have "padded_id pfx (Suc n) \<notin> set (seq_ids pfx n)"
      by (auto simp: set_seq_ids dest: padded_id_inj)
    from create_record_padded [OF l this] n IH show ?thesis
      by (simp add: seq_ids_Suc)
  qed
qed

lemma padded_1000_less_999: "padded_id pfx 1000 < padded_id pfx 999"
proof -
  have a: "padStart 3 (CHR ''0'') (show_nat 1000) = ''1000''"
    by code_simp
  have b: "padStart 3 (CHR ''0'') (show_nat 999) = ''999''"
    by code_simp
  show ?thesis
    unfolding padded_id_def append_less_cancel a b by (simp add: less_char_def)
qed

lemma last_seq_ids_1000: "findOne_sort_desc (seq_ids pfx 1000) = Some (padded_id pfx 999)"
proof -
  have s: "seq_ids pfx 1000 = seq_ids pfx 999 @ [padded_id pfx 1000]"
    using seq_ids_Suc [of pfx 999] by simp
  have m: "Max (set (seq_ids pfx 999)) = padded_id pfx 999"
    using last_seq_ids_small [of 999 pfx] findOne_sort_desc_Max [of "seq_ids pfx 999"]
    by (simp add: seq_ids_def)
  have ne: "set (seq_ids pfx 999) \<noteq> {}" by (simp add: seq_ids_def)
  have "Max (set (seq_ids pfx 1000)) = max (padded_id pfx 1000) (Max (set (seq_ids pfx 999)))"
    unfolding s using ne by simp
  also have "\<dots> = padded_id pfx 999"
    using padded_1000_less_999 [of pfx] by (simp add: m max_def less_imp_le)
  finally show ?thesis
    using findOne_sort_desc_Max [of "seq_ids pfx 1000"] by (simp add: s)
qed

lemma create_1001_fails: "create_many pfx 1001 [] = Inl DuplicateKey"
proof -
  have c: "create_many pfx 1000 [] = Inr (seq_ids pfx 1000)"
    by (rule create_many_small) simp
  have n: "next_sequential_id pfx (seq_ids pfx 1000) = padded_id pfx 1000"
    using next_sequential_id_padded [OF last_seq_ids_1000] by simp
  have "padded_id pfx 1000 \<in> set (seq_ids pfx 1000)"
    by (simp add: set_seq_ids)
  with n have "create_record pfx (seq_ids pfx 1000) = Inl DuplicateKey"
    by (simp add: create_record_def pre_save_id_def Let_def)
  moreover have "create_many pfx 1001 [] = (case create_many pfx 1000 [] of Inl e \<Rightarrow> Inl e
      | Inr ids' \<Rightarrow> create_record pfx ids')"
    using create_many.simps(2) [of pfx 1000 "[]"] by simp
  ultimately show ?thesis by (simp add: c)
qed

text \<open>
  What holds of the generation rule. A new document without an id gets \<open>PREFIX001\<close> in
  an empty collection; the id the hook reads is the last one of the collection in
  lexicographic order; when that id is the prefix followed by decimal digits whose
  successor is below \<open>2^53\<close>, the new id is the prefix followed by that successor,
  zero-padded to at least three digits; and up to 1000 creations in a row into an empty
  collection give the prefix followed by the zero-padded position.
\<close>

lemma sequential_id_rule:
  "pre_save_id pfx [] True [] = pfx @ ''001''
   \<and> (ids \<noteq> [] \<longrightarrow> findOne_sort_desc ids = Some (Max (set ids)))
   \<and> (findOne_sort_desc ids = Some (pfx @ ds) \<and> ds \<noteq> [] \<and> list_all is_digit ds
        \<and> digits_value ds + 1 < 2 ^ 53
        \<longrightarrow> pre_save_id pfx ids True []
              = pfx @ padStart 3 (CHR ''0'') (show_nat (Suc (nat (digits_value ds)))))
   \<and> (n \<le> 1000 \<longrightarrow> create_many pfx n [] = Inr (map (padded_id pfx) [1..<Suc n]))"
proof (intro conjI impI)
  show "pre_save_id pfx [] True [] = pfx @ ''001''"
    by (simp add: pre_save_id_def next_sequential_id_def)
next
  assume "ids \<noteq> []"
  then show "findOne_sort_desc ids = Some (Max (set ids))"
    by (rule findOne_sort_desc_Max)
next
  assume "findOne_sort_desc ids = Some (pfx @ ds) \<and> ds \<noteq> [] \<and> list_all is_digit ds
        \<and> digits_value ds + 1 < 2 ^ 53"
  then have "next_sequential_id pfx ids = padded_id pfx (Suc (nat (digits_value ds)))"
    by (intro next_sequential_id_wellformed) (simp_all add: list_all_iff)
  then show "pre_save_id pfx ids True []
      = pfx @ padStart 3 (CHR ''0'') (show_nat (Suc (nat (digits_value ds))))"
    by (simp add: pre_save_id_def padded_id_def)
next
  assume "n \<le> 1000"
  then show "create_many pfx n [] = Inr (map (padded_id pfx) [1..<Suc n])"
    using create_many_small [of n pfx] by (simp add: seq_ids_def)
qed

text \<open>
  Outside these conditions the hook does not give the successor: the numeric suffix is
  a double, and an id that does not start with the prefix is not a number.
\<close>

lemma sequential_id_other_last_ids:
  "MemberSchema_pre_save [''MEM9007199254740993''] True [] = ''MEM9007199254740992''
   \<and> MemberSchema_pre_save [''MEM001'', ''mem005''] True [] = ''MEMNaN''"
  by code_simp

text \<open>
  C2 fails on the code, in its consequence for every \<open>N\<close>. The first 1000 members
  created in a row get \<open>MEM001\<close> to \<open>MEM1000\<close>. After them the last id in lexicographic
  order is \<open>MEM999\<close>, not \<open>MEM1000\<close>, so the hook computes \<open>MEM1000\<close> again where the
  claim gives \<open>MEM1001\<close>, and the creation of the 1001st member is refused by the unique
  index on the id, as is every creation after it.
\<close>

theorem sequential_id_1001st_creation:
  "create_many ''MEM'' 1000 [] = Inr (map (padded_id ''MEM'') [1..<1001])
   \<and> padded_id ''MEM'' 1000 = ''MEM1000''
   \<and> findOne_sort_desc (map (padded_id ''MEM'') [1..<1001]) = Some ''MEM999''
   \<and> MemberSchema_pre_save (map (padded_id ''MEM'') [1..<1001]) True [] = ''MEM1000''
   \<and> padded_id ''MEM'' 1001 = ''MEM1001''
   \<and> create_many ''MEM'' 1001 [] = Inl DuplicateKey"
proof -
  have a: "create_many ''MEM'' 1000 [] = Inr (map (padded_id ''MEM'') [1..<1001])"
    using create_many_small [of 1000 "''MEM''"] by (simp add: seq_ids_def)
  have l: "findOne_sort_desc (map (padded_id ''MEM'') [1..<1001]) = Some (padded_id ''MEM'' 999)"
    using last_seq_ids_1000 [of "''MEM''"] by (simp add: seq_ids_def)
  have l9: "padded_id ''MEM'' 999 = ''MEM999''" by code_simp
  have "next_sequential_id ''MEM'' (seq_ids ''MEM'' 1000) = padded_id ''MEM'' (Suc 999)"
    by (rule next_sequential_id_padded) (simp_all add: last_seq_ids_1000)
  moreover have k: "padded_id ''MEM'' (Suc 999) = ''MEM1000''" by code_simp
  ultimately have b: "MemberSchema_pre_save (map (padded_id ''MEM'') [1..<1001]) True [] = ''MEM1000''"
    by (simp add: MemberSchema_pre_save_def pre_save_id_def seq_ids_def)
  have c: "padded_id ''MEM'' 1001 = ''MEM1001''" by code_simp
  show ?thesis using a b c k l l9 create_1001_fails [of "''MEM''"] by simp
qed

section \<open>Properties of the transaction identifiers\<close>

lemma show_nat_snoc: "show_nat n = (if n < 10 then [] else show_nat (n div 10)) @ [digit_char (n mod 10)]"
  by (subst show_nat.simps) simp

lemma year_suffix_two_digits:
  assumes "10 \<le> year"
  shows "year_suffix year = [digit_char (year div 10 mod 10), digit_char (year mod 10)]"
proof -
  let ?xs = "if year div 10 < 10 then [] else show_nat (year div 10 div 10)"
  have "show_nat year = show_nat (year div 10) @ [digit_char (year mod 10)]"
    using assms by (subst show_nat.simps) simp
  also have "show_nat (year div 10) = ?xs @ [digit_char (year div 10 mod 10)]"
    by (rule show_nat_snoc)
  finally have "show_nat year = ?xs @ [digit_char (year div 10 mod 10), digit_char (year mod 10)]"
    by simp
  then show ?thesis by (simp add: year_suffix_def Let_def)
qed

lemma next_transaction_id_empty:
  "next_transaction_id year [] = ''TXN'' @ year_suffix year @ ''001''"
  by (simp add: next_transaction_id_def Let_def)

lemma next_transaction_id_other_prefix:
  assumes "ids \<noteq> []" and "take 5 (Max (set ids)) \<noteq> ''TXN'' @ year_suffix year"
  shows "next_transaction_id year ids = ''TXN'' @ year_suffix year @ ''001''"
  unfolding next_transaction_id_def Let_def findOne_sort_desc_Max [OF assms(1)] option.case
  using assms(2) by simp

lemma next_transaction_id_successor:
  assumes "ids \<noteq> []" and "Max (set ids) = ''TXN'' @ year_suffix year @ ds"
    and "length (year_suffix year) = 2"
    and "ds \<noteq> []" and "list_all is_digit ds" and "digits_value ds + 1 < 2 ^ 53"
  shows "next_transaction_id year ids =
     ''TXN'' @ year_suffix year @ padStart 3 (CHR ''0'') (show_nat (Suc (nat (digits_value ds))))"
proof -
  have p: "js_String (js_succ (parseInt10 ds)) = show_nat (Suc (nat (digits_value ds)))"
    using assms(4,5,6) by (intro parseInt10_succ) (simp_all add: list_all_iff)
  have t: "take 5 (''TXN'' @ year_suffix year @ ds) = ''TXN'' @ year_suffix year"
    and d: "drop 5 (''TXN'' @ year_suffix year @ ds) = ds"
    using assms(3) by simp_all
  show ?thesis
    unfolding next_transaction_id_def Let_def findOne_sort_desc_Max [OF assms(1)] assms(2)
      option.case t d p
    by simp
qed

text \<open>
  C6 (amended). A transaction created without an id, in a year of at least two digits,
  gets an id that starts with \<open>TXN\<close> and the last two digits of the current year. The
  rest is \<open>001\<close> when no transaction is stored, and when the first five characters of
  the lexicographically last stored id are not \<open>TXN\<close> and these two digits. When the
  lexicographically last stored id is \<open>TXN\<close>, these two digits and a nonempty string
  of decimal digits whose number plus one is below \<open>2^53\<close>, the rest is that number plus
  one, zero-padded to three digits.
\<close>

theorem transaction_id_generation:
  "10 \<le> year \<longrightarrow>
     year_suffix year = [digit_char (year div 10 mod 10), digit_char (year mod 10)]
     \<and> TransactionSchema_pre_save_id year [] True [] = ''TXN'' @ year_suffix year @ ''001''
     \<and> (ids \<noteq> [] \<and> take 5 (Max (set ids)) \<noteq> ''TXN'' @ year_suffix year
        \<longrightarrow> TransactionSchema_pre_save_id year ids True [] = ''TXN'' @ year_suffix year @ ''001'')
     \<and> (ids \<noteq> [] \<and> Max (set ids) = ''TXN'' @ year_suffix year @ ds \<and> ds \<noteq> []
          \<and> list_all is_digit ds \<and> digits_value ds + 1 < 2 ^ 53
        \<longrightarrow> TransactionSchema_pre_save_id year ids True [] =
              ''TXN'' @ year_suffix year
                @ padStart 3 (CHR ''0'') (show_nat (Suc (nat (digits_value ds)))))"
proof (rule impI)
  assume y: "10 \<le> year"
  have s: "year_suffix year = [digit_char (year div 10 mod 10), digit_char (year mod 10)]"
    using y by (rule year_suffix_two_digits)
  then have l: "length (year_suffix year) = 2" by simp
  have e: "TransactionSchema_pre_save_id year [] True [] = ''TXN'' @ year_suffix year @ ''001''"
    by (simp add: TransactionSchema_pre_save_id_def next_transaction_id_empty)
  have r: "ids \<noteq> [] \<and> take 5 (Max (set ids)) \<noteq> ''TXN'' @ year_suffix year
        \<longrightarrow> TransactionSchema_pre_save_id year ids True [] = ''TXN'' @ year_suffix year @ ''001''"
  proof
    assume "ids \<noteq> [] \<and> take 5 (Max (set ids)) \<noteq> ''TXN'' @ year_suffix year"
    then have "next_transaction_id year ids = ''TXN'' @ year_suffix year @ ''001''"
      by (intro next_transaction_id_other_prefix) simp_all
    then show "TransactionSchema_pre_save_id year ids True [] = ''TXN'' @ year_suffix year @ ''001''"
      by (simp only: TransactionSchema_pre_save_id_def simp_thms if_False)
  qed
  have n: "ids \<noteq> [] \<and> Max (set ids) = ''TXN'' @ year_suffix year @ ds \<and> ds \<noteq> []
          \<and> list_all is_digit ds \<and> digits_value ds + 1 < 2 ^ 53
        \<longrightarrow> TransactionSchema_pre_save_id year ids True [] =
              ''TXN'' @ year_suffix year
                @ padStart 3 (CHR ''0'') (show_nat (Suc (nat (digits_value ds))))"
  proof
    assume "ids \<noteq> [] \<and> Max (set ids) = ''TXN'' @ year_suffix year @ ds \<and> ds \<noteq> []
          \<and> list_all is_digit ds \<and> digits_value ds + 1 < 2 ^ 53"
    then have "next_transaction_id year ids =
       ''TXN'' @ year_suffix year @ padStart 3 (CHR ''0'') (show_nat (Suc (nat (digits_value ds))))"
      using l by (intro next_transaction_id_successor) simp_all
    then show "TransactionSchema_pre_save_id year ids True [] =
              ''TXN'' @ year_suffix year
                @ padStart 3 (CHR ''0'') (show_nat (Suc (nat (digits_value ds))))"
      by (simp only: TransactionSchema_pre_save_id_def simp_thms if_False)
  qed
  from s e r n show "year_suffix year = [digit_char (year div 10 mod 10), digit_char (year mod 10)]
     \<and> TransactionSchema_pre_save_id year [] True [] = ''TXN'' @ year_suffix year @ ''001''
     \<and> (ids \<noteq> [] \<and> take 5 (Max (set ids)) \<noteq> ''TXN'' @ year_suffix year
        \<longrightarrow> TransactionSchema_pre_save_id year ids True [] = ''TXN'' @ year_suffix year @ ''001'')
     \<and> (ids \<noteq> [] \<and> Max (set ids) = ''TXN'' @ year_suffix year @ ds \<and> ds \<noteq> []
          \<and> list_all is_digit ds \<and> digits_value ds + 1 < 2 ^ 53
        \<longrightarrow> TransactionSchema_pre_save_id year ids True [] =
              ''TXN'' @ year_suffix year
                @ padStart 3 (CHR ''0'') (show_nat (Suc (nat (digits_value ds)))))"
    by (simp only: simp_thms)
qed

text \<open>
  The theorem in 2026: on the empty collection; after \<open>TXN25012\<close> and \<open>TXN26007\<close>, stored
  in this order and in the other, where the last id in lexicographic order is
  \<open>TXN26007\<close>; and after \<open>TXN25003\<close> and \<open>TXN25012\<close>, ids of another year.
\<close>

theorem transaction_id_generation_witness:
  "(10::nat) \<le> 2026
   \<and> year_suffix 2026 = ''26''
   \<and> [''TXN25012'', ''TXN26007''] \<noteq> []
   \<and> Max (set [''TXN25012'', ''TXN26007'']) = ''TXN'' @ year_suffix 2026 @ ''007''
   \<and> Max (set [''TXN26007'', ''TXN25012'']) = ''TXN'' @ year_suffix 2026 @ ''007''
   \<and> ''007'' \<noteq> [] \<and> list_all is_digit ''007'' \<and> digits_value ''007'' + 1 < 2 ^ 53
   \<and> [''TXN25003'', ''TXN25012''] \<noteq> []
   \<and> take 5 (Max (set [''TXN25003'', ''TXN25012''])) \<noteq> ''TXN'' @ year_suffix 2026
   \<and> TransactionSchema_pre_save_id 2026 [] True [] = ''TXN26001''
   \<and> TransactionSchema_pre_save_id 2026 [''TXN25012'', ''TXN26007''] True [] = ''TXN26008''
   \<and> TransactionSchema_pre_save_id 2026 [''TXN26007'', ''TXN25012''] True [] = ''TXN26008''
   \<and> TransactionSchema_pre_save_id 2026 [''TXN25003'', ''TXN25012''] True [] = ''TXN26001''"
proof -
  have y: "year_suffix 2026 = ''26''" by code_simp
  have m1: "Max (set [''TXN25012'', ''TXN26007'']) = ''TXN'' @ year_suffix 2026 @ ''007''"
    unfolding y by (simp add: max_def less_eq_char_def)
  have m2: "Max (set [''TXN26007'', ''TXN25012'']) = ''TXN'' @ year_suffix 2026 @ ''007''"
    unfolding y by (simp add: max_def less_eq_char_def)
  have m3: "Max (set [''TXN25003'', ''TXN25012'']) = ''TXN25012''"
    by (simp add: max_def less_eq_char_def)
  have m4: "take 5 (Max (set [''TXN25003'', ''TXN25012''])) \<noteq> ''TXN'' @ year_suffix 2026"
    unfolding y m3 by simp
  have c: "padStart 3 (CHR ''0'') (show_nat (Suc (nat (digits_value ''007'')))) = ''008''"
    by code_simp
  have d: "list_all is_digit ''007''"
    by (simp add: is_digit_def less_eq_char_def)
  have v: "digits_value ''007'' + 1 < 2 ^ 53" by code_simp
  note t1 = transaction_id_generation [of 2026 "[''TXN25012'', ''TXN26007'']" "''007''"]
  note t2 = transaction_id_generation [of 2026 "[''TXN26007'', ''TXN25012'']" "''007''"]
  note t3 = transaction_id_generation [of 2026 "[''TXN25003'', ''TXN25012'']" "''007''"]
  have p0: "TransactionSchema_pre_save_id 2026 [] True [] = ''TXN'' @ year_suffix 2026 @ ''001''"
    using t1 by simp
  have p1: "TransactionSchema_pre_save_id 2026 [''TXN25012'', ''TXN26007''] True [] =
      ''TXN'' @ year_suffix 2026 @ padStart 3 (CHR ''0'') (show_nat (Suc (nat (digits_value ''007''))))"
    using t1 m1 d v by simp
  have p2: "TransactionSchema_pre_save_id 2026 [''TXN26007'', ''TXN25012''] True [] =
      ''TXN'' @ year_suffix 2026 @ padStart 3 (CHR ''0'') (show_nat (Suc (nat (digits_value ''007''))))"
    using t2 m2 d v by simp
  have p3: "TransactionSchema_pre_save_id 2026 [''TXN25003'', ''TXN25012''] True [] =
      ''TXN'' @ year_suffix 2026 @ ''001''"
    using t3 m4 by simp
  show ?thesis
    unfolding p0 p1 p2 p3 c using y m1 m2 m4 d v by simp
qed

text \<open>
  C6 as stated fails: the hook does not compare the embedded year but the first five
  characters. After \<open>TXN26004\<close> and \<open>ZZZ26005\<close> (the creation of a transaction takes the
  id of the request) the last id in lexicographic order is \<open>ZZZ26005\<close>; it embeds the
  current year 26, so the claim gives the numeric suffix plus one, \<open>TXN26006\<close>, where
  the hook restarts at \<open>TXN26001\<close>.
\<close>

theorem transaction_id_other_prefix_counterexample:
  "findOne_sort_desc [''TXN26004'', ''ZZZ26005''] = Some ''ZZZ26005''
   \<and> take 2 (drop 3 ''ZZZ26005'') = year_suffix 2026
   \<and> TransactionSchema_pre_save_id 2026 [''TXN26004'', ''ZZZ26005''] True [] = ''TXN26001''
   \<and> spec_transaction_id 2026 [''TXN26004'', ''ZZZ26005''] = ''TXN26006''"
  by code_simp

text \<open>Beyond \<open>2^53\<close> the numeric suffix is rounded, and the successor is not reached.\<close>

lemma transaction_id_beyond_doubles:
  "TransactionSchema_pre_save_id 2026 [''TXN269007199254740993''] True []
     = ''TXN269007199254740992''"
  by code_simp

section \<open>The running balance of the ledger\<close>

lemma chained_snoc:
  "chained p (es @ [e]) =
     (chained p es
      \<and> balance e = js_sub (js_add (if es = [] then p else balance (last es)) (credit e)) (debit e))"
  by (induction es arbitrary: p) auto

lemma findOne_latest_balance:
  "(case findOne_latest m coll of None \<Rightarrow> 0 | Some e \<Rightarrow> balance e) =
     (if filter (\<lambda>e. l_member_id e = m) coll = [] then 0
      else balance (last (filter (\<lambda>e. l_member_id e = m) coll)))"
  by (simp add: findOne_latest_def split: list.splits)

text \<open>The number a numeric or missing request field stands for.\<close>

lemma numeric_body_values:
  assumes "numeric_body body"
  shows "\<exists>c d. cast_number_default0 (b_credit body) = Some c
           \<and> cast_number_default0 (b_debit body) = Some d
           \<and> (\<forall>lb. newBalance lb (b_credit body) (b_debit body) = Some (js_sub (js_add lb c) d))"
proof -
  from assms obtain c where c: "b_credit body = None \<and> c = 0 \<or> b_credit body = Some (Num c)"
    by (auto simp: numeric_body_def split: option.splits jsvalue.splits)
  from assms obtain d where d: "b_debit body = None \<and> d = 0 \<or> b_debit body = Some (Num d)"
    by (auto simp: numeric_body_def split: option.splits jsvalue.splits)
  have oc: "or_zero (b_credit body) = Some (Num c)" and cc: "cast_number_default0 (b_credit body) = Some c"
    using c by (auto simp: or_zero_def cast_number_default0_def)
  have od: "or_zero (b_debit body) = Some (Num d)" and cd: "cast_number_default0 (b_debit body) = Some d"
    using d by (auto simp: or_zero_def cast_number_default0_def)
  have "\<forall>lb. newBalance lb (b_credit body) (b_debit body) = Some (js_sub (js_add lb c) d)"
    by (simp add: newBalance_def oc od js_plus_def js_minus_def to_number_def)
  with cc cd show ?thesis by blast
qed

lemma createLedgerEntry_numeric:
  assumes "numeric_body body"
  shows "\<exists>r db'. createLedgerEntry now new_oid body db = Some (r, db')
     \<and> (db' = db \<and> (\<exists>err. r = Inl err)
        \<or> (\<exists>e. r = Inr e \<and> db' = db\<lparr>ledgers := ledgers db @ [e]\<rparr>
             \<and> b_member_id body = Some (l_member_id e)
             \<and> balance e = js_sub (js_add (case findOne_latest (l_member_id e) (ledgers db) of
                                              None \<Rightarrow> 0 | Some x \<Rightarrow> balance x)
                                      (credit e)) (debit e)))"
proof -
  from numeric_body_values [OF assms] obtain c d where
    v: "cast_number_default0 (b_credit body) = Some c"
       "cast_number_default0 (b_debit body) = Some d"
       "\<And>lb. newBalance lb (b_credit body) (b_debit body) = Some (js_sub (js_add lb c) d)"
    by blast
  show ?thesis
    unfolding createLedgerEntry_def Let_def v option.case prod.case
    by (auto simp: Ledger_create_def Let_def split: option.splits)
qed

lemma createLedgerEntry_chained:
  assumes "numeric_body body"
    and "createLedgerEntry now new_oid body db = Some (r, db')"
    and "chained 0 (filter (\<lambda>e. l_member_id e = m) (ledgers db))"
  shows "chained 0 (filter (\<lambda>e. l_member_id e = m) (ledgers db'))"
proof -
  from createLedgerEntry_numeric [OF assms(1), of now new_oid db] assms(2)
  have "db' = db \<and> (\<exists>err. r = Inl err)
        \<or> (\<exists>e. r = Inr e \<and> db' = db\<lparr>ledgers := ledgers db @ [e]\<rparr>
             \<and> b_member_id body = Some (l_member_id e)
             \<and> balance e = js_sub (js_add (case findOne_latest (l_member_id e) (ledgers db) of
                                              None \<Rightarrow> 0 | Some x \<Rightarrow> balance x)
                                      (credit e)) (debit e))"
    by auto
  then show ?thesis
  proof (elim disjE conjE exE)
    assume "db' = db"
    with assms(3) show ?thesis by simp
  next
    fix e
    assume e: "db' = db\<lparr>ledgers := ledgers db @ [e]\<rparr>"
      "balance e = js_sub (js_add (case findOne_latest (l_member_id e) (ledgers db) of
                                              None \<Rightarrow> 0 | Some x \<Rightarrow> balance x)
                                      (credit e)) (debit e)"
    show ?thesis
    proof (cases "l_member_id e = m")
      case True
      with e assms(3) show ?thesis
        by (simp add: chained_snoc findOne_latest_balance)
    next
      case False
      with e assms(3) show ?thesis by simp
    qed
  qed
qed

text \<open>
  What holds of C1. When every request carries \<open>debit\<close> and \<open>credit\<close> as numbers, or not
  at all, each request is answered, and after any sequence of requests on an empty
  ledger the entries of every member, in creation order, form the running-balance
  chain that starts at 0.
\<close>

lemma ledger_running_balance_numeric:
  assumes "list_all (\<lambda>rq. numeric_body (snd (snd rq))) reqs"
    and "chained 0 (filter (\<lambda>e. l_member_id e = m) (ledgers db))"
  shows "\<exists>db'. run_creates reqs db = Some db'
           \<and> chained 0 (filter (\<lambda>e. l_member_id e = m) (ledgers db'))"
  using assms
proof (induction reqs arbitrary: db)
  case Nil
  then show ?case by simp
next
  case (Cons rq reqs)
  obtain now new_oid body where rq: "rq = (now, new_oid, body)" by (cases rq) auto
  with Cons.prems(1) have nb: "numeric_body body" and rest: "list_all (\<lambda>rq. numeric_body (snd (snd rq))) reqs"
    by simp_all
  from createLedgerEntry_numeric [OF nb, of now new_oid db]
  obtain r db1 where s: "createLedgerEntry now new_oid body db = Some (r, db1)" by blast
  from createLedgerEntry_chained [OF nb s Cons.prems(2)]
  have "chained 0 (filter (\<lambda>e. l_member_id e = m) (ledgers db1))" .
  from Cons.IH [OF rest this] show ?case by (simp add: rq s)
qed

text \<open>
  C1 fails on the code. The handler adds the \<open>credit\<close> of the request to the last balance
  as the request sent it. For member 7 a first entry with credit 50 gets the balance
  50. A second request with the credit \<open>"100"\<close>, a string, is answered 201: the stored
  credit is cast to the number 100, but the balance is \<open>50 + "100" - 0\<close>, the number
  50100, where the chain of the claim gives \<open>50 + 100 - 0 = 150\<close>.
\<close>

theorem createLedgerEntry_string_credit_breaks_chain:
  "createLedgerEntry 1767225600000 101 (ex_body 7 20 None (Some (Num 50))) ex_db
     = Some (Inr (ex_entry 101 ''LGR001'' 7 20 1767225600000 0 50 50),
             ex_db\<lparr>ledgers := [ex_entry 101 ''LGR001'' 7 20 1767225600000 0 50 50]\<rparr>)
   \<and> createLedgerEntry 1769904000000 102 (ex_body 7 21 None (Some (Str ''100'')))
       (ex_db\<lparr>ledgers := [ex_entry 101 ''LGR001'' 7 20 1767225600000 0 50 50]\<rparr>)
     = Some (Inr (ex_entry 102 ''LGR002'' 7 21 1769904000000 0 100 50100),
             ex_db\<lparr>ledgers := [ex_entry 101 ''LGR001'' 7 20 1767225600000 0 50 50,
                                ex_entry 102 ''LGR002'' 7 21 1769904000000 0 100 50100]\<rparr>)
   \<and> js_sub (js_add 50 100) 0 = 150
   \<and> \<not> chained 0 [ex_entry 101 ''LGR001'' 7 20 1767225600000 0 50 50,
                    ex_entry 102 ''LGR002'' 7 21 1769904000000 0 100 50100]"
  by code_simp

section \<open>The member's ledger statement\<close>

text \<open>
  C5 fails on the code. Member 7 has the entries \<open>LGR001\<close> (1 January 2026, credit 100,
  balance 100) and \<open>LGR003\<close> (1 March 2026, debit 30, balance 70), made by
  \<open>createLedgerEntry\<close>. The statement from 1 February 2026 holds \<open>LGR003\<close>, an entry in
  range, and the claim gives the opening balance \<open>70 - 0 + 30 = 100\<close> and the closing
  balance 70. The handler answers 500 and no statement: the entries are populated with
  their transactions, and writing the response throws on the transaction of \<open>LGR003\<close>.
  The same holds without a range. And when the transaction of \<open>LGR003\<close> is not found
  (here after an update of the entry that points it to no stored transaction), so
  that the statement is written, its opening balance is computed from the member's
  first entry of all, \<open>LGR001\<close>: \<open>100 - 100 + 0 = 0\<close>, not 100.
\<close>

theorem getMemberLedger_answers_500:
  "run_creates ex_reqs ex_db
     = Some (ex_db\<lparr>ledgers := [ex_entry 101 ''LGR001'' 7 20 1767225600000 0 100 100,
                                ex_entry 102 ''LGR002'' 8 21 1769904000000 0 40 40,
                                ex_entry 103 ''LGR003'' 7 22 1772323200000 30 0 70]\<rparr>)
   \<and> getMemberLedger 7 (Some ''2026-02-01'') None
       (ex_db\<lparr>ledgers := [ex_entry 101 ''LGR001'' 7 20 1767225600000 0 100 100,
                          ex_entry 102 ''LGR002'' 8 21 1769904000000 0 40 40,
                          ex_entry 103 ''LGR003'' 7 22 1772323200000 30 0 70]\<rparr>)
     = Some (Inl (500, ''Cannot read properties of undefined (reading 'toLocaleString')''))
   \<and> getMemberLedger 7 None None
       (ex_db\<lparr>ledgers := [ex_entry 101 ''LGR001'' 7 20 1767225600000 0 100 100,
                          ex_entry 102 ''LGR002'' 8 21 1769904000000 0 40 40,
                          ex_entry 103 ''LGR003'' 7 22 1772323200000 30 0 70]\<rparr>)
     = Some (Inl (500, ''Cannot read properties of undefined (reading 'toLocaleString')''))
   \<and> updateLedgerEntry 103 [(''$set'', Obj [(''transaction_id'', Oid 99)])]
       (ex_db\<lparr>ledgers := [ex_entry 101 ''LGR001'' 7 20 1767225600000 0 100 100,
                          ex_entry 102 ''LGR002'' 8 21 1769904000000 0 40 40,
                          ex_entry 103 ''LGR003'' 7 22 1772323200000 30 0 70]\<rparr>)
     = Some (Inr (ex_entry 103 ''LGR003'' 7 99 1772323200000 30 0 70),
             ex_db\<lparr>ledgers := [ex_entry 101 ''LGR001'' 7 20 1767225600000 0 100 100,
                                ex_entry 102 ''LGR002'' 8 21 1769904000000 0 40 40,
                                ex_entry 103 ''LGR003'' 7 99 1772323200000 30 0 70]\<rparr>)
   \<and> getMemberLedger 7 (Some ''2026-02-01'') None
       (ex_db\<lparr>ledgers := [ex_entry 101 ''LGR001'' 7 20 1767225600000 0 100 100,
                          ex_entry 102 ''LGR002'' 8 21 1769904000000 0 40 40,
                          ex_entry 103 ''LGR003'' 7 99 1772323200000 30 0 70]\<rparr>)
     = Some (Inr \<lparr>opening_balance = 0, closing_balance = 70,
                  transactions = [ex_entry 103 ''LGR003'' 7 99 1772323200000 30 0 70],
                  count = 1\<rparr>)
   \<and> spec_opening_balance [ex_entry 103 ''LGR003'' 7 99 1772323200000 30 0 70] = 100"
  by code_simp

text \<open>The dates of the query: the date-only forms are read as midnight UTC.\<close>

lemma parse_date_examples:
  "parse_date ''2026-02-01'' = Some 1769904000000
   \<and> parse_date ''2026-02'' = Some 1769904000000
   \<and> parse_date ''3000'' = Some 32503680000000"
  by code_simp

text \<open>
  The failure is not one of this example: a statement is answered only when no entry in
  range has a transaction that is found, and \<open>createLedgerEntry\<close> stores no entry
  without one.
\<close>

lemma getMemberLedger_statement_only_without_transactions:
  assumes "getMemberLedger m startDate endDate db = Some (Inr st)"
  shows "list_all (\<lambda>e. l_transaction_id e \<notin> set (transaction_oids db)) (transactions st)"
  using assms
  by (auto simp: getMemberLedger_def Let_def serialising_throws_def list_all_iff list_ex_iff
      split: if_splits option.splits)

lemma createLedgerEntry_transaction_found:
  assumes "createLedgerEntry now new_oid body db = Some (Inr e, db')"
  shows "l_transaction_id e \<in> set (transaction_oids db')"
  using assms
  by (auto simp: createLedgerEntry_def Ledger_create_def Let_def
      split: option.splits if_splits sum.splits prod.splits)

text \<open>What holds when the statement is written: the closing balance.\<close>

lemma getMemberLedger_closing_balance:
  assumes "getMemberLedger m startDate endDate db = Some (Inr st)" and "transactions st \<noteq> []"
  shows "closing_balance st = balance (last (transactions st))"
  using assms
  by (auto simp: getMemberLedger_def Let_def split: if_splits option.splits)

section \<open>Updating a ledger entry\<close>

text \<open>
  C10 fails on the code. The keys \<open>balance\<close> and \<open>member_id\<close> are stripped at the top
  level of the body only: inside a \<open>$set\<close> operator they reach \<open>findOneAndUpdate\<close> and
  are written. The entry \<open>LGR001\<close> of member 7 with balance 100 is stored with balance
  0 for member 8; the response, written after the update, is 400.
\<close>

theorem updateLedgerEntry_set_operator_changes_balance:
  "updateLedgerEntry 101 [(''$set'', Obj [(''balance'', Num 0), (''member_id'', Oid 8)])] ex_ledger_db
     = Some (Inl (400, ''Cannot read properties of undefined (reading 'toLocaleString')''),
             ex_db\<lparr>ledgers := [ex_entry 101 ''LGR001'' 8 20 1767225600000 0 100 0]\<rparr>)"
  by code_simp

text \<open>
  What holds: a body without operator keys leaves the five protected fields of the
  stored entry as they were, whatever the response is.
\<close>

lemma ledger_set_protected:
  assumes "fst kv \<notin> set [''ledger_id'', ''branch_id'', ''member_id'', ''transaction_id'', ''balance'']"
    and "ledger_set kv e = Some e'"
  shows "protected_fields e' = protected_fields e \<and> l_oid e' = l_oid e"
  using assms
  by (auto simp: ledger_set_def Let_def protected_fields_def split: if_splits jsvalue.splits)

lemma ledger_set_all_protected:
  assumes "\<forall>kv \<in> set kvs. fst kv \<notin> set [''ledger_id'', ''branch_id'', ''member_id'', ''transaction_id'', ''balance'']"
    and "ledger_set_all kvs e = Some e'"
  shows "protected_fields e' = protected_fields e \<and> l_oid e' = l_oid e"
  using assms
proof (induction kvs arbitrary: e)
  case Nil
  then show ?case by simp
next
  case (Cons kv kvs)
  from Cons.prems(2) obtain e1 where e1: "ledger_set kv e = Some e1" "ledger_set_all kvs e1 = Some e'"
    by (auto split: option.splits)
  have "protected_fields e1 = protected_fields e \<and> l_oid e1 = l_oid e"
    using Cons.prems(1) e1(1) by (intro ledger_set_protected) simp_all
  moreover have "protected_fields e' = protected_fields e1 \<and> l_oid e' = l_oid e1"
    using Cons.prems(1) e1(2) by (intro Cons.IH) simp_all
  ultimately show ?case by simp
qed

lemma find_replace_ledger:
  "find (\<lambda>e. l_oid e = i) coll = Some old \<Longrightarrow> l_oid d = i
   \<Longrightarrow> find (\<lambda>e. l_oid e = i) (replace_ledger i d coll) = Some d"
  by (induction coll) (auto split: if_splits)

lemma find_l_oid: "find (\<lambda>e. l_oid e = i) coll = Some e \<Longrightarrow> l_oid e = i"
  by (induction coll) (auto split: if_splits)

lemma updateLedgerEntry_plain_keys_protected:
  assumes "list_all (\<lambda>kv. \<not> is_operator (fst kv)) body"
    and "find (\<lambda>e. l_oid e = i) (ledgers db) = Some e"
    and "updateLedgerEntry i body db = Some (r, db')"
  shows "\<exists>e'. find (\<lambda>e. l_oid e = i) (ledgers db') = Some e'
           \<and> protected_fields e' = protected_fields e"
proof -
  let ?ks = "[''ledger_id'', ''branch_id'', ''member_id'', ''transaction_id'', ''balance'']"
  let ?u = "rest_without ?ks body"
  let ?f = "filter (\<lambda>kv. \<not> is_operator (fst kv)) ?u"
  have no: "\<not> list_ex (\<lambda>kv. is_operator (fst kv) \<and> fst kv \<noteq> ''$set'') ?u"
    using assms(1) by (auto simp: list_ex_iff list_all_iff rest_without_def)
  have "map_of ?u ''$set'' = None"
  proof (rule ccontr)
    assume "map_of ?u ''$set'' \<noteq> None"
    then obtain v where "(''$set'', v) \<in> set ?u" by (auto dest: map_of_SomeD)
    then have "(''$set'', v) \<in> set body" by (simp add: rest_without_def)
    with assms(1) have "\<not> is_operator ''$set''" by (auto simp: list_all_iff)
    then show False by (simp add: is_operator_def)
  qed
  with no have sd: "update_set_doc ?u = Some ?f"
    by (simp add: update_set_doc_def)
  have keys: "\<forall>kv \<in> set ?f. fst kv \<notin> set ?ks"
    by (simp add: rest_without_def)
  from assms(3) obtain e1 where e1: "ledger_set_all ?f e = Some e1"
    unfolding updateLedgerEntry_def Let_def sd assms(2) option.case
    by (cases "ledger_set_all ?f e") auto
  from ledger_set_all_protected [OF keys e1]
  have p: "protected_fields e1 = protected_fields e" and o: "l_oid e1 = i"
    using find_l_oid [OF assms(2)] by simp_all
  from p have same: "ledger_id e1 = ledger_id e" by (simp add: protected_fields_def)
  from assms(3) have "ledgers db' = replace_ledger i e1 (ledgers db)"
    unfolding updateLedgerEntry_def Let_def sd assms(2) option.case e1
    by (auto simp: same split: if_splits)
  with find_replace_ledger [OF assms(2) o] p show ?thesis by simp
qed

section \<open>Reversing a transaction\<close>

text \<open>
  C3 fails on the code. The reversal is created with the negated amount, and the schema
  of the transaction demands \<open>amount \<ge> 0.01\<close>: for the stored deposit \<open>TXN26001\<close> of 500
  the creation of the reversal is refused by validation, the handler answers 400 and
  the collection is as before. No reversal is created and the original stays
  \<open>Completed\<close>.
\<close>

theorem reverseTransaction_rejected_by_amount_minimum:
  "Transaction_create 1000 2026 (ex_txn\<lparr>transaction_id := []\<rparr>) [] = Inr (ex_txn, [ex_txn])
   \<and> reverseTransaction 5000 2026 21 20 [ex_txn]
       = (Inl (400, ''Path amount is less than minimum allowed value (0.01)''), [ex_txn])"
  by code_simp

text \<open>
  The same for every stored transaction that satisfies the schema's own minimum; and a
  transaction already \<open>Reversed\<close> is refused with 400 and nothing changes, as C3 says.
\<close>

lemma reverseTransaction_never_succeeds:
  assumes "find (\<lambda>t. t_oid t = i) coll = Some original" and "1 / 100 \<le> amount original"
  shows "\<exists>msg. reverseTransaction now year new_oid i coll = (Inl (400, msg), coll)"
proof (cases "t_status original = TxnReversed")
  case True
  with assms(1) show ?thesis by (simp add: reverseTransaction_def)
next
  case False
  let ?doc = "original\<lparr>t_oid := new_oid, transaction_id := [],
                       amount := - amount original, t_status := TxnCompleted,
                       t_description := Some (''Reversal of '' @ transaction_id original),
                       related_transaction := Some (t_oid original)\<rparr>"
  have "amount ?doc < 1 / 100" using assms(2) by simp
  then have "TransactionSchema_validate now ?doc \<noteq> None"
    by (simp add: TransactionSchema_validate_def)
  then obtain msg where "Transaction_create now year ?doc coll = Inl msg"
    by (auto simp: Transaction_create_def)
  with assms(1) False show ?thesis by (simp add: reverseTransaction_def)
qed

lemma reverseTransaction_already_reversed:
  assumes "find (\<lambda>t. t_oid t = i) coll = Some original" and "t_status original = TxnReversed"
  shows "reverseTransaction now year new_oid i coll
     = (Inl (400, ''Transaction already reversed''), coll)"
  using assms by (simp add: reverseTransaction_def)

section \<open>The status of an installment\<close>

lemma set_installment_id_fields [simp]:
  "due_date (set_installment_id isNew coll i) = due_date i"
  "i_amount (set_installment_id isNew coll i) = i_amount i"
  "paid_amount (set_installment_id isNew coll i) = paid_amount i"
  "i_status (set_installment_id isNew coll i) = i_status i"
  "late_fee (set_installment_id isNew coll i) = late_fee i"
  by (simp_all add: set_installment_id_def)

lemma set_installment_number_fields [simp]:
  "due_date (set_installment_number isNew coll i) = due_date i"
  "i_amount (set_installment_number isNew coll i) = i_amount i"
  "paid_amount (set_installment_number isNew coll i) = paid_amount i"
  "i_status (set_installment_number isNew coll i) = i_status i"
  "late_fee (set_installment_number isNew coll i) = late_fee i"
  by (simp_all add: set_installment_number_def)

lemma set_pending_amount_fields [simp]:
  "due_date (set_pending_amount i) = due_date i"
  "i_amount (set_pending_amount i) = i_amount i"
  "paid_amount (set_pending_amount i) = paid_amount i"
  "i_status (set_pending_amount i) = i_status i"
  "late_fee (set_pending_amount i) = late_fee i"
  "pending_amount (set_pending_amount i) = i_amount i - paid_amount i"
  by (simp_all add: set_pending_amount_def)

lemma set_status_by_payment_fields [simp]:
  "due_date (set_status_by_payment i) = due_date i"
  "i_amount (set_status_by_payment i) = i_amount i"
  "paid_amount (set_status_by_payment i) = paid_amount i"
  "pending_amount (set_status_by_payment i) = pending_amount i"
  "late_fee (set_status_by_payment i) = late_fee i"
  by (simp_all add: set_status_by_payment_def)

lemma set_late_fields [simp]:
  "due_date (set_late now i) = due_date i"
  "i_amount (set_late now i) = i_amount i"
  "paid_amount (set_late now i) = paid_amount i"
  "pending_amount (set_late now i) = pending_amount i"
  "late_fee (set_late now i) = late_fee i"
  by (simp_all add: set_late_def)

lemma set_installment_period_fields [simp]:
  "due_date (set_installment_period isNew schs i) = due_date i"
  "i_amount (set_installment_period isNew schs i) = i_amount i"
  "paid_amount (set_installment_period isNew schs i) = paid_amount i"
  "pending_amount (set_installment_period isNew schs i) = pending_amount i"
  "i_status (set_installment_period isNew schs i) = i_status i"
  "late_fee (set_installment_period isNew schs i) = late_fee i"
  by (simp_all add: set_installment_period_def split: option.splits)






section \<open>Recording a payment\<close>

text \<open>
  C7. A payment against an installment with status \<open>Paid\<close> and no pending amount is
  answered with 400, and the database after the request is the database before it:
  the installment is as it was and no receipt is created.
\<close>

theorem recordPayment_rejects_fully_paid:
  "find (\<lambda>x. i_oid x = i) (installments db) = Some inst \<and> i_status inst = Paid
     \<and> pending_amount inst \<le> 0
   \<longrightarrow> recordPayment now year new_oid employee i body db
         = (Inl (400, ''Installment already fully paid''), db)"
  by (simp add: recordPayment_def)

text \<open>The theorem on a fully paid installment of 1000.\<close>

theorem recordPayment_rejects_fully_paid_witness:
  "find (\<lambda>x. i_oid x = 30) (installments (ex_payment_db (ex_inst 0 1000 1000 0 Paid)))
     = Some (ex_inst 0 1000 1000 0 Paid)
   \<and> i_status (ex_inst 0 1000 1000 0 Paid) = Paid
   \<and> pending_amount (ex_inst 0 1000 1000 0 Paid) \<le> 0
   \<and> recordPayment 5000 2026 40 3 30 (ex_payment 100) (ex_payment_db (ex_inst 0 1000 1000 0 Paid))
       = (Inl (400, ''Installment already fully paid''), ex_payment_db (ex_inst 0 1000 1000 0 Paid))
   \<and> receipts (snd (recordPayment 5000 2026 40 3 30 (ex_payment 100)
        (ex_payment_db (ex_inst 0 1000 1000 0 Paid)))) = []"
proof -
  have a: "find (\<lambda>x. i_oid x = 30) (installments (ex_payment_db (ex_inst 0 1000 1000 0 Paid)))
     = Some (ex_inst 0 1000 1000 0 Paid)"
    by (simp add: ex_payment_db_def ex_inst_def)
  have b: "i_status (ex_inst 0 1000 1000 0 Paid) = Paid"
    "pending_amount (ex_inst 0 1000 1000 0 Paid) \<le> 0"
    by (simp_all add: ex_inst_def)
  have r: "receipts (ex_payment_db (ex_inst 0 1000 1000 0 Paid)) = []"
    by (simp add: ex_payment_db_def)
  from recordPayment_rejects_fully_paid [of 30 "ex_payment_db (ex_inst 0 1000 1000 0 Paid)"
      "ex_inst 0 1000 1000 0 Paid" 5000 2026 40 3 "ex_payment 100"] a b
  have "recordPayment 5000 2026 40 3 30 (ex_payment 100) (ex_payment_db (ex_inst 0 1000 1000 0 Paid))
       = (Inl (400, ''Installment already fully paid''), ex_payment_db (ex_inst 0 1000 1000 0 Paid))"
    by blast
  with a b r show ?thesis by simp
qed

text \<open>
  No scheme document has a property \<open>late_fee_rate\<close>: the rate of the late fee is the
  default of 2% for every installment, whether its scheme is found or not.
\<close>

lemma scheme_property_late_fee_rate: "scheme_property ''late_fee_rate'' sch = None"
  by (simp add: scheme_property_def)

lemma lateFee_formula:
  "lateFee now schs inst =
     (if now > due_date inst
      then js_mul (js_mul (i_amount inst) (round_double (2 / 100)))
             (of_int \<lceil>js_div (js_sub now (due_date inst)) 86400000\<rceil>)
      else 0)"
proof -
  have "Option.bind (find (\<lambda>s. s_oid s = i_scheme_id inst) schs) (scheme_property ''late_fee_rate'')
      = None"
    by (cases "find (\<lambda>s. s_oid s = i_scheme_id inst) schs")
       (simp_all add: scheme_property_late_fee_rate)
  then show ?thesis by (simp add: lateFee_def Let_def)
qed

lemma pre_save_i_oid [simp]:
  "i_oid (InstallmentSchema_pre_save now isNew coll schs x) = i_oid x"
  by (simp add: InstallmentSchema_pre_save_def set_installment_period_def set_late_def
      set_status_by_payment_def set_pending_amount_def set_installment_number_def
      set_installment_id_def split: option.splits)

lemma pre_save_late_fee [simp]:
  "late_fee (InstallmentSchema_pre_save now isNew coll schs x) = late_fee x"
  by (simp add: InstallmentSchema_pre_save_def set_installment_period_def set_late_def
      set_status_by_payment_def set_pending_amount_def set_installment_number_def
      set_installment_id_def split: option.splits)

lemma find_replace_installment:
  "find (\<lambda>x. i_oid x = i) coll = Some old \<Longrightarrow> i_oid d = i
   \<Longrightarrow> find (\<lambda>x. i_oid x = i) (replace_installment i d coll) = Some d"
  by (induction coll) (auto split: if_splits)

lemma find_i_oid: "find (\<lambda>x. i_oid x = i) coll = Some inst \<Longrightarrow> i_oid inst = i"
  by (induction coll) (auto split: if_splits)

lemma recordPayment_sets_late_fee:
  assumes f: "find (\<lambda>x. i_oid x = i) (installments db) = Some inst"
    and np: "\<not> (i_status inst = Paid \<and> pending_amount inst \<le> 0)"
    and p: "pb_paid_amount body = Some paid"
    and pm: "case pb_payment_mode body of None \<Rightarrow> True | Some pm \<Rightarrow> pm \<in> set payment_modes"
  shows "\<exists>saved. find (\<lambda>x. i_oid x = i) (installments (snd (recordPayment now year new_oid employee i body db)))
            = Some saved
          \<and> late_fee saved = lateFee now (schemes db) inst"
proof -
  define inst1 where "inst1 = inst\<lparr>paid_amount := paid_amount inst + paid,
                               paid_date := Some now,
                               late_fee := lateFee now (schemes db) inst,
                               i_status := (if pending_amount inst \<le> paid then Paid
                                            else if paid_amount inst + paid > 0 then Partial
                                            else Pending),
                               i_payment_mode := pb_payment_mode body,
                               collected_by := Some (case pb_collected_by body of
                                                       None \<Rightarrow> employee | Some c \<Rightarrow> c)\<rparr>"
  define d where "d = InstallmentSchema_pre_save now False (installments db) (schemes db) inst1"
  have id: "i_oid d = i" using find_i_oid [OF f] by (simp add: d_def inst1_def)
  have lf: "late_fee d = lateFee now (schemes db) inst" by (simp add: d_def inst1_def)
  have sv: "Installment_save now (schemes db) inst1 (installments db)
      = Inr (d, replace_installment i d (installments db))"
    using pm id by (auto simp: Installment_save_def Let_def d_def inst1_def split: option.splits)
  have c: "(i_status inst = Paid \<and> pending_amount inst \<le> 0) = False"
    using np by simp
  have "installments (snd (recordPayment now year new_oid employee i body db))
      = replace_installment i d (installments db)"
    unfolding recordPayment_def f p option.case c if_False Let_def inst1_def [symmetric] sv
      sum.case prod.case
    by (simp split: option.splits sum.splits prod.splits)
  with find_replace_installment [OF f id] lf show ?thesis by simp
qed

text \<open>
  C9. A payment that is recorded (the installment is found and not already fully paid,
  the request has a \<open>paid_amount\<close> and a \<open>payment_mode\<close> of the enumeration or none)
  stores the installment with the late fee computed at that payment, whatever late fee
  it had before: when the payment is after the due date, the amount times the rate
  times the days late, where the days late are the ceiling of the delay in days, the
  rate is the default 2% (\<open>0.02\<close>) since no scheme has a \<open>late_fee_rate\<close>, and the
  products are those of the doubles; and 0 when the payment is at or before the due
  date.
\<close>

theorem recordPayment_late_fee:
  "scheme_property ''late_fee_rate'' sch = None
   \<and> (find (\<lambda>x. i_oid x = i) (installments db) = Some inst
      \<and> \<not> (i_status inst = Paid \<and> pending_amount inst \<le> 0)
      \<and> pb_paid_amount body = Some paid
      \<and> (case pb_payment_mode body of None \<Rightarrow> True | Some pm \<Rightarrow> pm \<in> set payment_modes)
    \<longrightarrow> map_option late_fee
          (find (\<lambda>x. i_oid x = i)
             (installments (snd (recordPayment now year new_oid employee i body db))))
        = Some (if now > due_date inst
                then js_mul (js_mul (i_amount inst) (round_double (2 / 100)))
                       (of_int \<lceil>js_div (js_sub now (due_date inst)) 86400000\<rceil>)
                else 0))"
proof (rule conjI)
  show "scheme_property ''late_fee_rate'' sch = None"
    by (rule scheme_property_late_fee_rate)
next
  show "find (\<lambda>x. i_oid x = i) (installments db) = Some inst
      \<and> \<not> (i_status inst = Paid \<and> pending_amount inst \<le> 0)
      \<and> pb_paid_amount body = Some paid
      \<and> (case pb_payment_mode body of None \<Rightarrow> True | Some pm \<Rightarrow> pm \<in> set payment_modes)
    \<longrightarrow> map_option late_fee
          (find (\<lambda>x. i_oid x = i)
             (installments (snd (recordPayment now year new_oid employee i body db))))
        = Some (if now > due_date inst
                then js_mul (js_mul (i_amount inst) (round_double (2 / 100)))
                       (of_int \<lceil>js_div (js_sub now (due_date inst)) 86400000\<rceil>)
                else 0)"
  proof
    assume a: "find (\<lambda>x. i_oid x = i) (installments db) = Some inst
      \<and> \<not> (i_status inst = Paid \<and> pending_amount inst \<le> 0)
      \<and> pb_paid_amount body = Some paid
      \<and> (case pb_payment_mode body of None \<Rightarrow> True | Some pm \<Rightarrow> pm \<in> set payment_modes)"
    then have f: "find (\<lambda>x. i_oid x = i) (installments db) = Some inst"
      and np: "\<not> (i_status inst = Paid \<and> pending_amount inst \<le> 0)"
      and p: "pb_paid_amount body = Some paid"
      and pm: "case pb_payment_mode body of None \<Rightarrow> True | Some pm \<Rightarrow> pm \<in> set payment_modes"
      by simp_all
    from recordPayment_sets_late_fee [OF f np p pm, of now year new_oid employee]
    obtain saved where
      s: "find (\<lambda>x. i_oid x = i) (installments (snd (recordPayment now year new_oid employee i body db)))
            = Some saved"
      and l: "late_fee saved = lateFee now (schemes db) inst"
      by blast
    show "map_option late_fee
          (find (\<lambda>x. i_oid x = i)
             (installments (snd (recordPayment now year new_oid employee i body db))))
        = Some (if now > due_date inst
                then js_mul (js_mul (i_amount inst) (round_double (2 / 100)))
                       (of_int \<lceil>js_div (js_sub now (due_date inst)) 86400000\<rceil>)
                else 0)"
      unfolding s option.map l lateFee_formula ..
  qed
qed

text \<open>
  The theorem on an installment of 70 due on 1 January 2026 that holds an earlier late
  fee of 5: a payment a day later stores the late fee \<open>70 * 0.02 * 1\<close> of the doubles,
  which is \<open>1.4000000000000001\<close>, and a payment at the due date stores 0. An installment
  of 1000 paid a day and a half late stores \<open>1000 * 0.02 * 2 = 40\<close>.
\<close>

theorem recordPayment_late_fee_witness:
  "scheme_property ''late_fee_rate'' ex_scheme = None
   \<and> find (\<lambda>x. i_oid x = 30)
        (installments (ex_payment_db ((ex_inst 1767225600000 70 0 70 Pending)\<lparr>late_fee := 5\<rparr>)))
       = Some ((ex_inst 1767225600000 70 0 70 Pending)\<lparr>late_fee := 5\<rparr>)
   \<and> \<not> (i_status ((ex_inst 1767225600000 70 0 70 Pending)\<lparr>late_fee := 5\<rparr>) = Paid
          \<and> pending_amount ((ex_inst 1767225600000 70 0 70 Pending)\<lparr>late_fee := 5\<rparr>) \<le> 0)
   \<and> pb_paid_amount (ex_payment 30) = Some 30
   \<and> pb_payment_mode (ex_payment 30) = Some ''Cash'' \<and> ''Cash'' \<in> set payment_modes
   \<and> map_option late_fee
        (find (\<lambda>x. i_oid x = 30)
           (installments (snd (recordPayment 1767312000000 2026 40 3 30 (ex_payment 30)
              (ex_payment_db ((ex_inst 1767225600000 70 0 70 Pending)\<lparr>late_fee := 5\<rparr>))))))
       = Some (6305039478318695 / 4503599627370496)
   \<and> map_option late_fee
        (find (\<lambda>x. i_oid x = 30)
           (installments (snd (recordPayment 1767225600000 2026 40 3 30 (ex_payment 30)
              (ex_payment_db ((ex_inst 1767225600000 70 0 70 Pending)\<lparr>late_fee := 5\<rparr>))))))
       = Some 0
   \<and> map_option late_fee
        (find (\<lambda>x. i_oid x = 30)
           (installments (snd (recordPayment 1767355200000 2026 40 3 30 (ex_payment 400)
              (ex_payment_db (ex_inst 1767225600000 1000 0 1000 Pending))))))
       = Some 40"
proof -
  let ?i = "(ex_inst 1767225600000 70 0 70 Pending)\<lparr>late_fee := 5\<rparr>"
  let ?j = "ex_inst 1767225600000 1000 0 1000 Pending"
  have f: "find (\<lambda>x. i_oid x = 30) (installments (ex_payment_db ?i)) = Some ?i"
    by (simp add: ex_payment_db_def ex_inst_def)
  have g: "find (\<lambda>x. i_oid x = 30) (installments (ex_payment_db ?j)) = Some ?j"
    by (simp add: ex_payment_db_def ex_inst_def)
  have np: "\<not> (i_status ?i = Paid \<and> pending_amount ?i \<le> 0)"
    "\<not> (i_status ?j = Paid \<and> pending_amount ?j \<le> 0)"
    by (simp_all add: ex_inst_def)
  have p: "pb_paid_amount (ex_payment 30) = Some 30" "pb_paid_amount (ex_payment 400) = Some 400"
    "pb_payment_mode (ex_payment 30) = Some ''Cash''"
    "pb_payment_mode (ex_payment 400) = Some ''Cash''"
    by (simp_all add: ex_payment_def)
  have m: "''Cash'' \<in> set payment_modes" by (simp add: payment_modes_def)
  have d: "due_date ?i = 1767225600000" "i_amount ?i = 70"
    "due_date ?j = 1767225600000" "i_amount ?j = 1000"
    by (simp_all add: ex_inst_def)
  have v1: "js_mul (js_mul 70 (round_double (2 / 100)))
              (of_int \<lceil>js_div (js_sub 1767312000000 1767225600000) 86400000\<rceil>)
            = 6305039478318695 / 4503599627370496"
    by code_simp
  have v2: "js_mul (js_mul 1000 (round_double (2 / 100)))
              (of_int \<lceil>js_div (js_sub 1767355200000 1767225600000) 86400000\<rceil>)
            = 40"
    by code_simp
  have c: "(1767225600000::rat) < 1767312000000" "\<not> (1767225600000::rat) < 1767225600000"
    "(1767225600000::rat) < 1767355200000"
    by simp_all
  have h1: "find (\<lambda>x. i_oid x = 30) (installments (ex_payment_db ?i)) = Some ?i
      \<and> \<not> (i_status ?i = Paid \<and> pending_amount ?i \<le> 0)
      \<and> pb_paid_amount (ex_payment 30) = Some 30
      \<and> (case pb_payment_mode (ex_payment 30) of None \<Rightarrow> True | Some pm \<Rightarrow> pm \<in> set payment_modes)"
    using f np(1) p m by simp
  have h3: "find (\<lambda>x. i_oid x = 30) (installments (ex_payment_db ?j)) = Some ?j
      \<and> \<not> (i_status ?j = Paid \<and> pending_amount ?j \<le> 0)
      \<and> pb_paid_amount (ex_payment 400) = Some 400
      \<and> (case pb_payment_mode (ex_payment 400) of None \<Rightarrow> True | Some pm \<Rightarrow> pm \<in> set payment_modes)"
    using g np(2) p m by simp
  note t1 = recordPayment_late_fee [of ex_scheme 30 "ex_payment_db ?i" ?i "ex_payment 30" 30
      1767312000000 2026 40 3]
  note t2 = recordPayment_late_fee [of ex_scheme 30 "ex_payment_db ?i" ?i "ex_payment 30" 30
      1767225600000 2026 40 3]
  note t3 = recordPayment_late_fee [of ex_scheme 30 "ex_payment_db ?j" ?j "ex_payment 400" 400
      1767355200000 2026 40 3]
  have s: "scheme_property ''late_fee_rate'' ex_scheme = None" using t1 by blast
  from t1 h1 have "map_option late_fee
        (find (\<lambda>x. i_oid x = 30)
           (installments (snd (recordPayment 1767312000000 2026 40 3 30 (ex_payment 30)
              (ex_payment_db ?i)))))
       = Some (if 1767312000000 > due_date ?i
                then js_mul (js_mul (i_amount ?i) (round_double (2 / 100)))
                       (of_int \<lceil>js_div (js_sub 1767312000000 (due_date ?i)) 86400000\<rceil>)
                else 0)"
    by blast
  then have r1: "map_option late_fee
        (find (\<lambda>x. i_oid x = 30)
           (installments (snd (recordPayment 1767312000000 2026 40 3 30 (ex_payment 30)
              (ex_payment_db ?i)))))
       = Some (6305039478318695 / 4503599627370496)"
    by (simp only: d c if_True v1)
  from t2 h1 have "map_option late_fee
        (find (\<lambda>x. i_oid x = 30)
           (installments (snd (recordPayment 1767225600000 2026 40 3 30 (ex_payment 30)
              (ex_payment_db ?i)))))
       = Some (if 1767225600000 > due_date ?i
                then js_mul (js_mul (i_amount ?i) (round_double (2 / 100)))
                       (of_int \<lceil>js_div (js_sub 1767225600000 (due_date ?i)) 86400000\<rceil>)
                else 0)"
    by blast
  then have r2: "map_option late_fee
        (find (\<lambda>x. i_oid x = 30)
           (installments (snd (recordPayment 1767225600000 2026 40 3 30 (ex_payment 30)
              (ex_payment_db ?i)))))
       = Some 0"
    by (simp only: d c if_False)
  from t3 h3 have "map_option late_fee
        (find (\<lambda>x. i_oid x = 30)
           (installments (snd (recordPayment 1767355200000 2026 40 3 30 (ex_payment 400)
              (ex_payment_db ?j)))))
       = Some (if 1767355200000 > due_date ?j
                then js_mul (js_mul (i_amount ?j) (round_double (2 / 100)))
                       (of_int \<lceil>js_div (js_sub 1767355200000 (due_date ?j)) 86400000\<rceil>)
                else 0)"
    by blast
  then have r3: "map_option late_fee
        (find (\<lambda>x. i_oid x = 30)
           (installments (snd (recordPayment 1767355200000 2026 40 3 30 (ex_payment 400)
              (ex_payment_db ?j)))))
       = Some 40"
    by (simp only: d c if_True v2)
  from s f np(1) p(1,3) m r1 r2 r3 show ?thesis by blast
qed

text \<open>
  The late fee is the same with the scheme of the installment stored and with no scheme
  at all, and a request that creates a scheme has no way to store a rate.
\<close>

lemma recordPayment_late_fee_without_scheme:
  "map late_fee (installments (snd (recordPayment 1767355200000 2026 40 3 30 (ex_payment 400)
      (ex_payment_db (ex_inst 1767225600000 1000 0 1000 Pending))))) = [40]
   \<and> map late_fee (installments (snd (recordPayment 1767355200000 2026 40 3 30 (ex_payment 400)
      ((ex_payment_db (ex_inst 1767225600000 1000 0 1000 Pending))\<lparr>schemes := []\<rparr>)))) = [40]"
  by code_simp

text \<open>
  The scenario of the specification: an installment of 1000 that is a day overdue and
  paid in full is saved with nothing pending and status \<open>Paid\<close>, not \<open>Late\<close>.
\<close>

lemma recordPayment_full_payment_when_overdue:
  "map (\<lambda>x. (paid_amount x, pending_amount x, i_status x))
     (installments (snd (recordPayment 86400000 2026 40 3 30 (ex_payment 1000)
        (ex_payment_db (ex_inst 0 1000 0 1000 Late))))) = [(1000, 0, Paid)]"
  by code_simp

section \<open>Adding a member to a group\<close>

lemma find_g_oid: "find (\<lambda>g. g_oid g = i) gs = Some grp \<Longrightarrow> g_oid grp = i"
  by (induction gs) (auto split: if_splits)

text \<open>
  C8 (amended). A request that names an existing member and an existing group and
  whose payout month is already assigned to a member of the group is answered with 400
  and the database is unchanged; and when an addition succeeds on a group that was
  \<open>Forming\<close> and the group then has at least \<open>min_members\<close> of its scheme, the saved
  group is \<open>Active\<close> and has one member more.
\<close>

theorem addGroupMember_payout_month_and_activation:
  "(am_member_id body = Some mid \<and> mid \<in> set (gd_member_oids db)
      \<and> find (\<lambda>g. g_oid g = i) (groups db) = Some grp
      \<and> list_ex (\<lambda>m. payout_month m = am_payout_month body) (g_members grp)
    \<longrightarrow> addGroupMember now i body db
          = (Inl (400, if list_ex (\<lambda>m. gm_member_id m = mid) (g_members grp)
                       then ''Member already in group'' else ''Payout month already assigned''),
             db))
   \<and> (addGroupMember now' i' body' db' = (Inr grp2, db2)
      \<and> find (\<lambda>g. g_oid g = i') (groups db') = Some grp1
      \<and> find (\<lambda>s. s_oid s = g_scheme_id grp1) (gd_schemes db') = Some sch
      \<and> g_status grp1 = Forming
      \<and> of_nat (length (g_members grp2)) \<ge> min_members sch
    \<longrightarrow> g_status grp2 = Active
        \<and> length (g_members grp2) = Suc (length (g_members grp1))
        \<and> groups db2 = replace_group i' grp2 (groups db'))"
proof (rule conjI; rule impI)
  assume "am_member_id body = Some mid \<and> mid \<in> set (gd_member_oids db)
      \<and> find (\<lambda>g. g_oid g = i) (groups db) = Some grp
      \<and> list_ex (\<lambda>m. payout_month m = am_payout_month body) (g_members grp)"
  then show "addGroupMember now i body db
          = (Inl (400, if list_ex (\<lambda>m. gm_member_id m = mid) (g_members grp)
                       then ''Member already in group'' else ''Payout month already assigned''),
             db)"
    by (simp add: addGroupMember_def)
next
  assume a: "addGroupMember now' i' body' db' = (Inr grp2, db2)
      \<and> find (\<lambda>g. g_oid g = i') (groups db') = Some grp1
      \<and> find (\<lambda>s. s_oid s = g_scheme_id grp1) (gd_schemes db') = Some sch
      \<and> g_status grp1 = Forming
      \<and> of_nat (length (g_members grp2)) \<ge> min_members sch"
  then have f: "find (\<lambda>g. g_oid g = i') (groups db') = Some grp1"
    and s: "find (\<lambda>s. s_oid s = g_scheme_id grp1) (gd_schemes db') = Some sch"
    and st: "g_status grp1 = Forming"
    and n: "of_nat (length (g_members grp2)) \<ge> min_members sch"
    and r: "addGroupMember now' i' body' db' = (Inr grp2, db2)"
    by simp_all
  from r show "g_status grp2 = Active
        \<and> length (g_members grp2) = Suc (length (g_members grp1))
        \<and> groups db2 = replace_group i' grp2 (groups db')"
    unfolding addGroupMember_def f option.case Let_def
    using s st n
    by (auto split: option.splits if_splits)
qed

text \<open>
  The theorem on the scenario of the specification: a scheme with \<open>min_members = 5\<close>, a
  forming group of four, a fifth member with a taken and with a free payout month.
\<close>

theorem addGroupMember_payout_month_and_activation_witness:
  "am_member_id (ex_add 15 3) = Some 15 \<and> 15 \<in> set (gd_member_oids ex_group_db)
   \<and> find (\<lambda>g. g_oid g = 5) (groups ex_group_db) = Some (ex_group Forming ex_four)
   \<and> list_ex (\<lambda>m. payout_month m = am_payout_month (ex_add 15 3)) (g_members (ex_group Forming ex_four))
   \<and> addGroupMember 7000 5 (ex_add 15 3) ex_group_db
       = (Inl (400, ''Payout month already assigned''), ex_group_db)
   \<and> addGroupMember 7000 5 (ex_add 15 5) ex_group_db
       = (Inr (ex_group Active (ex_four @ [(ex_gm 15 5)\<lparr>join_date := 7000\<rparr>])),
          ex_group_db\<lparr>groups := [ex_group Active (ex_four @ [(ex_gm 15 5)\<lparr>join_date := 7000\<rparr>])]\<rparr>)
   \<and> find (\<lambda>s. s_oid s = g_scheme_id (ex_group Forming ex_four)) (gd_schemes ex_group_db)
       = Some ex_scheme
   \<and> min_members ex_scheme = 5
   \<and> g_status (ex_group Forming ex_four) = Forming
   \<and> g_status (ex_group Active (ex_four @ [(ex_gm 15 5)\<lparr>join_date := 7000\<rparr>])) = Active
   \<and> length (g_members (ex_group Active (ex_four @ [(ex_gm 15 5)\<lparr>join_date := 7000\<rparr>]))) = 5"
proof -
  let ?g2 = "ex_group Active (ex_four @ [(ex_gm 15 5)\<lparr>join_date := 7000\<rparr>])"
  have h1: "am_member_id (ex_add 15 3) = Some 15" by (simp add: ex_add_def)
  have h2: "15 \<in> set (gd_member_oids ex_group_db)" by (simp add: ex_group_db_def)
  have h3: "find (\<lambda>g. g_oid g = 5) (groups ex_group_db) = Some (ex_group Forming ex_four)"
    by (simp add: ex_group_db_def ex_group_def)
  have h4: "list_ex (\<lambda>m. payout_month m = am_payout_month (ex_add 15 3))
      (g_members (ex_group Forming ex_four))"
    by (simp add: ex_group_def ex_four_def ex_gm_def ex_add_def)
  have h5: "\<not> list_ex (\<lambda>m. gm_member_id m = 15) (g_members (ex_group Forming ex_four))"
    by (simp add: ex_group_def ex_four_def ex_gm_def)
  have k1: "addGroupMember 7000 5 (ex_add 15 5) ex_group_db
       = (Inr ?g2, ex_group_db\<lparr>groups := [?g2]\<rparr>)"
    by code_simp
  have k2: "find (\<lambda>s. s_oid s = g_scheme_id (ex_group Forming ex_four)) (gd_schemes ex_group_db)
       = Some ex_scheme"
    by (simp add: ex_group_db_def ex_group_def ex_scheme_def)
  have k3: "g_status (ex_group Forming ex_four) = Forming" by (simp add: ex_group_def)
  have k4: "min_members ex_scheme = 5" by (simp add: ex_scheme_def)
  have k5: "length (g_members ?g2) = 5" by (simp add: ex_group_def ex_four_def)
  have k6: "min_members ex_scheme \<le> of_nat (length (g_members ?g2))"
    by (simp add: k4 k5)
  note t = addGroupMember_payout_month_and_activation [of "ex_add 15 3" 15 ex_group_db 5
      "ex_group Forming ex_four" 7000 7000 5 "ex_add 15 5" ex_group_db ?g2
      "ex_group_db\<lparr>groups := [?g2]\<rparr>" "ex_group Forming ex_four" ex_scheme]
  have c1: "addGroupMember 7000 5 (ex_add 15 3) ex_group_db
       = (Inl (400, ''Payout month already assigned''), ex_group_db)"
    using t h1 h2 h3 h4 h5 by simp
  have c2: "g_status ?g2 = Active"
    using t k1 h3 k2 k3 k6 by blast
  from h1 h2 h3 h4 c1 k1 k2 k4 k3 c2 k5 show ?thesis by blast
qed

text \<open>
  C8 as stated fails: not every request with a payout month that is taken is answered
  with 400. The handler looks up the member first. In the forming group of four, where
  the payout month 3 is assigned, a request for month 3 that names no stored member
  (here the id 99), or no member at all, is answered with 404; the group is unchanged.
\<close>

theorem addGroupMember_unknown_member_counterexample:
  "list_ex (\<lambda>m. payout_month m = am_payout_month (ex_add 99 3)) (g_members (ex_group Forming ex_four))
   \<and> find (\<lambda>g. g_oid g = 5) (groups ex_group_db) = Some (ex_group Forming ex_four)
   \<and> addGroupMember 7000 5 (ex_add 99 3) ex_group_db
       = (Inl (404, ''Member not found''), ex_group_db)
   \<and> addGroupMember 7000 5 \<lparr>am_member_id = None, am_payout_month = Some 3\<rparr> ex_group_db
       = (Inl (404, ''Member not found''), ex_group_db)"
  by code_simp

end
